theory Spec2Isabelle
  imports Complex_Main "HOL-Library.Sublist"
begin

section \<open>Strings and paths\<close>

text \<open>
  JavaScript strings are modelled as \<^typ>\<open>string\<close>.  A path is the list of its
  components, so \<open>path.join(dir, file)\<close> appends one component and the last
  component is what \<open>path.basename\<close> and \<open>path.extname\<close> look at.
\<close>

type_synonym path = "string list"

definition path_join :: "path \<Rightarrow> string \<Rightarrow> path" where
  "path_join dir file = dir @ [file]"

definition lower_char :: "char \<Rightarrow> char" where
  "lower_char c =
     (case map_of (zip ''ABCDEFGHIJKLMNOPQRSTUVWXYZ'' ''abcdefghijklmnopqrstuvwxyz'') c of
        Some d \<Rightarrow> d
      | None \<Rightarrow> c)"

definition toLowerCase :: "string \<Rightarrow> string" where
  "toLowerCase s = map lower_char s"

text \<open>
  \<open>path.extname\<close> on a file name without separators: the part from the last dot on,
  and the empty string when there is no dot, when the only dot is the first character,
  or when the name is \<open>..\<close>.
\<close>

definition extname :: "string \<Rightarrow> string" where
  "extname file =
     (if CHR ''.'' \<notin> set file then ''''
      else let startDot = length file - Suc (length (takeWhile (\<lambda>c. c \<noteq> CHR ''.'') (rev file)))
           in if startDot = 0 \<or> file = ''..'' then '''' else drop startDot file)"

text \<open>\<open>path.basename(p, suffix)\<close>: the last component, without the suffix when it
  ends with it and is longer than it.\<close>

definition basename :: "path \<Rightarrow> string \<Rightarrow> string" where
  "basename p sfx =
     (let file = (if p = [] then '''' else last p)
      in if sfx \<noteq> '''' \<and> length sfx < length file \<and> drop (length file - length sfx) file = sfx
         then take (length file - length sfx) file else file)"

section \<open>JavaScript values\<close>

text \<open>
  What \<open>JSON.parse\<close> can return, plus \<open>undefined\<close> for a missing property.
  Numbers inside a probe document are integers (ffprobe prints every fractional
  quantity as a quoted string); the numbers the script computes with are \<open>jsnum\<close>:
  a rational, an infinity or \<open>NaN\<close>.  A finite number is kept exactly: the rounding
  of a double, its overflow to an infinity and its underflow to zero are left out.
  An object is the list of its properties.
\<close>

datatype jsval =
    JUndefined
  | JNull
  | JBool bool
  | JNum int
  | JStr string
  | JArr "jsval list"
  | JObj "(string \<times> jsval) list"

datatype jsnum = NaN | NegInf | Fin rat | PosInf

datatype js_error = TypeError | Error string | SystemError string

fun js_lt :: "jsnum \<Rightarrow> jsnum \<Rightarrow> bool" where
  "js_lt NaN b = False"
| "js_lt a NaN = False"
| "js_lt NegInf b = (b \<noteq> NegInf)"
| "js_lt (Fin x) NegInf = False"
| "js_lt (Fin x) (Fin y) = (x < y)"
| "js_lt (Fin x) PosInf = True"
| "js_lt PosInf b = False"

definition js_gt :: "jsnum \<Rightarrow> jsnum \<Rightarrow> bool" where
  "js_gt a b = js_lt b a"

definition js_ge :: "jsnum \<Rightarrow> jsnum \<Rightarrow> bool" where
  "js_ge a b = (a \<noteq> NaN \<and> b \<noteq> NaN \<and> \<not> js_lt a b)"

definition isNaN :: "jsnum \<Rightarrow> bool" where
  "isNaN a = (a = NaN)"

text \<open>\<open>Math.abs\<close> reads its first argument only; further arguments are ignored.\<close>

fun Math_abs :: "jsnum list \<Rightarrow> jsnum" where
  "Math_abs [] = NaN"
| "Math_abs (NaN # rest) = NaN"
| "Math_abs (NegInf # rest) = PosInf"
| "Math_abs (Fin x # rest) = Fin \<bar>x\<bar>"
| "Math_abs (PosInf # rest) = PosInf"

fun truthy :: "jsval \<Rightarrow> bool" where
  "truthy JUndefined = False"
| "truthy JNull = False"
| "truthy (JBool b) = b"
| "truthy (JNum n) = (n \<noteq> 0)"
| "truthy (JStr s) = (s \<noteq> [])"
| "truthy (JArr xs) = True"
| "truthy (JObj kvs) = True"

text \<open>\<open>a || b\<close> on values.\<close>

definition js_or :: "jsval \<Rightarrow> jsval \<Rightarrow> jsval" where
  "js_or a b = (if truthy a then a else b)"

text \<open>
  Reading a property of a value that is neither \<open>null\<close> nor \<open>undefined\<close>.  The
  property names read by the scripts are on no prototype, so only an object can have
  them.
\<close>

fun get_prop :: "jsval \<Rightarrow> string \<Rightarrow> jsval" where
  "get_prop (JObj kvs) k = (case map_of kvs k of Some v \<Rightarrow> v | None \<Rightarrow> JUndefined)"
| "get_prop v k = JUndefined"

definition nullish :: "jsval \<Rightarrow> bool" where
  "nullish v = (v = JUndefined \<or> v = JNull)"

fun str_includes :: "string \<Rightarrow> string \<Rightarrow> bool" where
  "str_includes [] pat = (pat = [])"
| "str_includes (c # cs) pat = (prefix pat (c # cs) \<or> str_includes cs pat)"

text \<open>\<open>v.includes(pat)\<close>: a string method and an array method; anything else has no
  callable \<open>includes\<close>.\<close>

fun method_includes :: "jsval \<Rightarrow> string \<Rightarrow> js_error + bool" where
  "method_includes (JStr s) pat = Inr (str_includes s pat)"
| "method_includes (JArr xs) pat = Inr (JStr pat \<in> set xs)"
| "method_includes v pat = Inl TypeError"

fun array_some :: "('a \<Rightarrow> js_error + bool) \<Rightarrow> 'a list \<Rightarrow> js_error + bool" where
  "array_some p [] = Inr False"
| "array_some p (x # xs) =
     (case p x of Inl e \<Rightarrow> Inl e | Inr True \<Rightarrow> Inr True | Inr False \<Rightarrow> array_some p xs)"

fun method_some :: "jsval \<Rightarrow> (jsval \<Rightarrow> js_error + bool) \<Rightarrow> js_error + bool" where
  "method_some (JArr xs) p = array_some p xs"
| "method_some v p = Inl TypeError"

definition on_ok :: "'e + 'a \<Rightarrow> ('a \<Rightarrow> 'e + 'b) \<Rightarrow> 'e + 'b" where
  "on_ok r f = (case r of Inl e \<Rightarrow> Inl e | Inr x \<Rightarrow> f x)"

subsection \<open>Number parsing\<close>

definition is_digit :: "char \<Rightarrow> bool" where
  "is_digit c = (48 \<le> (of_char c :: nat) \<and> (of_char c :: nat) \<le> 57)"

text \<open>The white space of the ASCII range.  Strings are byte strings here, and the
  white space beyond ASCII that \<open>parseInt\<close> and \<open>parseFloat\<close> also skip is left out.\<close>

definition is_ws :: "char \<Rightarrow> bool" where
  "is_ws c = ((of_char c :: nat) \<in> {9, 10, 11, 12, 13, 32})"

definition digit_val :: "char \<Rightarrow> nat" where
  "digit_val c = of_char c - 48"

definition nat_of_digits :: "string \<Rightarrow> nat" where
  "nat_of_digits ds = foldl (\<lambda>a c. 10 * a + digit_val c) 0 ds"

definition split_sign :: "string \<Rightarrow> bool \<times> string" where
  "split_sign s =
     (case s of
        c # r \<Rightarrow> if c = CHR ''-'' then (True, r) else if c = CHR ''+'' then (False, r) else (False, s)
      | [] \<Rightarrow> (False, s))"

text \<open>\<open>parseInt(s, 10)\<close> on a string: leading white space, a sign, then digits.\<close>

definition parseInt_str :: "string \<Rightarrow> jsnum" where
  "parseInt_str s =
     (let (neg, r) = split_sign (dropWhile is_ws s);
          ds = takeWhile is_digit r
      in if ds = [] then NaN
         else Fin (of_int (if neg then - int (nat_of_digits ds) else int (nat_of_digits ds))))"

text \<open>The exponent part of a decimal literal: \<open>e\<close> or \<open>E\<close>, a sign, at least one digit;
  anything else is not part of the number.\<close>

definition exponent_part :: "string \<Rightarrow> int" where
  "exponent_part s =
     (case s of
        c # r \<Rightarrow>
          if c = CHR ''e'' \<or> c = CHR ''E''
          then (let (neg, r') = split_sign r; ds = takeWhile is_digit r'
                in if ds = [] then 0
                   else if neg then - int (nat_of_digits ds) else int (nat_of_digits ds))
          else 0
      | [] \<Rightarrow> 0)"

definition pow10 :: "int \<Rightarrow> rat" where
  "pow10 e = (if e < 0 then 1 / 10 ^ nat (- e) else 10 ^ nat e)"

text \<open>\<open>parseFloat(s)\<close> on a string: the longest prefix that is a decimal literal.\<close>

definition parseFloat_str :: "string \<Rightarrow> jsnum" where
  "parseFloat_str s =
     (let (neg, r) = split_sign (dropWhile is_ws s)
      in if prefix ''Infinity'' r then (if neg then NegInf else PosInf)
         else
           let ip = takeWhile is_digit r;
               r1 = dropWhile is_digit r;
               fp = (case r1 of c # t \<Rightarrow> if c = CHR ''.'' then takeWhile is_digit t else [] | [] \<Rightarrow> []);
               r2 = (case r1 of c # t \<Rightarrow> if c = CHR ''.'' then dropWhile is_digit t else r1 | [] \<Rightarrow> [])
           in if ip = [] \<and> fp = [] then NaN
              else
                let m = of_nat (nat_of_digits (ip @ fp)) / 10 ^ length fp * pow10 (exponent_part r2)
                in Fin (if neg then - m else m))"

subsection \<open>Conversion to string\<close>

function show_nat :: "nat \<Rightarrow> string" where
  "show_nat n =
     (if n < 10 then [''0123456789'' ! n] else show_nat (n div 10) @ [''0123456789'' ! (n mod 10)])"
  by pat_completeness auto
termination
  by (relation "measure id") auto

definition show_int :: "int \<Rightarrow> string" where
  "show_int i = (if i < 0 then CHR ''-'' # show_nat (nat (- i)) else show_nat (nat i))"

fun join_with :: "string \<Rightarrow> string list \<Rightarrow> string" where
  "join_with sep [] = []"
| "join_with sep [x] = x"
| "join_with sep (x # y # ys) = x @ sep @ join_with sep (y # ys)"

text \<open>
  \<open>String(v)\<close>.  An array is its elements joined by commas, with \<open>null\<close> and
  \<open>undefined\<close> elements as empty strings.  Integers are written in decimal (that is
  what JavaScript prints below \<open>10^21\<close>).
\<close>

fun js_toString :: "jsval \<Rightarrow> string" where
  "js_toString JUndefined = ''undefined''"
| "js_toString JNull = ''null''"
| "js_toString (JBool b) = (if b then ''true'' else ''false'')"
| "js_toString (JNum n) = show_int n"
| "js_toString (JStr s) = s"
| "js_toString (JArr xs) =
     join_with '','' (map (\<lambda>x. if x = JUndefined \<or> x = JNull then [] else js_toString x) xs)"
| "js_toString (JObj kvs) = ''[object Object]''"

definition parseInt :: "jsval \<Rightarrow> jsnum" where
  "parseInt v = parseInt_str (js_toString v)"

definition parseFloat :: "jsval \<Rightarrow> jsnum" where
  "parseFloat v = parseFloat_str (js_toString v)"

section \<open>validateMp4ByFfprobe\<close>

record details =
  d_a_ok :: bool
  d_video_ok :: bool
  d_audio_ok :: bool
  d_nb_streams :: jsnum
  d_duration :: jsnum
  d_size :: "jsnum option"

text \<open>
  The object the validator returns.  A property the object does not have is \<open>None\<close>:
  the early return has \<open>ok\<close> and \<open>reason\<close> only, the full result has \<open>ok\<close>,
  \<open>reasons\<close> and \<open>details\<close>.
\<close>

record validation =
  ok :: bool
  reason :: "string option"
  reasons :: "string list option"
  details :: "details option"

definition MAX_DIFF_SIZE_BYTES :: nat where
  "MAX_DIFF_SIZE_BYTES = 2 * 1024 * 1024"

text \<open>The callback of \<open>streams.some\<close>; reading \<open>s.codec_type\<close> of \<open>null\<close> throws.\<close>

definition stream_is :: "string \<Rightarrow> string \<Rightarrow> string \<Rightarrow> jsval \<Rightarrow> js_error + bool" where
  "stream_is ty codec tag s =
     (if nullish s then Inl TypeError
      else Inr (get_prop s ''codec_type'' = JStr ty \<and> get_prop s ''codec_name'' = JStr codec \<and>
                (case get_prop s ''codec_tag_string'' of JStr t \<Rightarrow> str_includes t tag | _ \<Rightarrow> False)))"

definition nb_streams_of :: "jsval \<Rightarrow> jsnum" where
  "nb_streams_of fmt =
     (case get_prop fmt ''nb_streams'' of
        JNum n \<Rightarrow> Fin (of_int n)
      | v \<Rightarrow> parseInt (js_or v (JStr ''0'')))"

definition failed_reasons :: "(bool \<times> string) list \<Rightarrow> string list" where
  "failed_reasons checks = map snd (filter (\<lambda>(passed, code). \<not> passed) checks)"

text \<open>The space-aware variant: six checks, the sixth on the size.\<close>

definition size_ok :: "jsnum \<Rightarrow> jsnum \<Rightarrow> bool" where
  "size_ok fsize originSize = js_gt (Math_abs [fsize, originSize]) (Fin (of_nat MAX_DIFF_SIZE_BYTES))"

definition validateMp4ByFfprobe :: "jsval \<Rightarrow> jsnum \<Rightarrow> js_error + validation" where
  "validateMp4ByFfprobe ffinfo originSize =
     (if \<not> truthy ffinfo \<or> \<not> truthy (get_prop ffinfo ''format'') \<or> \<not> truthy (get_prop ffinfo ''streams'')
      then Inr \<lparr>ok = False, reason = Some ''missing format or streams'', reasons = None, details = None\<rparr>
      else
        let fmt = js_or (get_prop ffinfo ''format'') (JObj []);
            streams = js_or (get_prop ffinfo ''streams'') (JArr [])
        in on_ok (if nullish (get_prop fmt ''format_name'') then Inl TypeError
                  else method_includes (get_prop fmt ''format_name'') ''mp4'') (\<lambda>a_ok.
           on_ok (method_some streams (stream_is ''video'' ''h264'' ''avc1'')) (\<lambda>video_ok.
           on_ok (method_some streams (stream_is ''audio'' ''aac'' ''mp4a'')) (\<lambda>audio_ok.
             let nb_streams = nb_streams_of fmt;
                 d_ok = js_ge nb_streams (Fin 2);
                 duration = parseFloat (js_or (get_prop fmt ''duration'') (JNum 0));
                 e_ok = js_gt duration (Fin 0);
                 fsize = parseFloat (js_or (get_prop fmt ''size'') (JNum 0));
                 f_ok = size_ok fsize originSize
             in Inr \<lparr>ok = a_ok \<and> video_ok \<and> audio_ok \<and> d_ok \<and> e_ok \<and> f_ok,
                     reason = None,
                     reasons = Some (failed_reasons
                       [(a_ok, ''container_not_mp4''), (video_ok, ''video_stream_not_h264_avc1''),
                        (audio_ok, ''audio_stream_not_aac_mp4a''), (d_ok, ''nb_streams_lt_2''),
                        (e_ok, ''duration_invalid''), (f_ok, ''size_invalid'')]),
                     details = Some \<lparr>d_a_ok = a_ok, d_video_ok = video_ok, d_audio_ok = audio_ok,
                                     d_nb_streams = nb_streams, d_duration = duration,
                                     d_size = Some fsize\<rparr>\<rparr>))))"

text \<open>The validation-aware variant: five checks, none of which can throw on the
  container name.\<close>

definition validateMp4ByFfprobe_v :: "jsval \<Rightarrow> js_error + validation" where
  "validateMp4ByFfprobe_v ffinfo =
     (if \<not> truthy ffinfo \<or> \<not> truthy (get_prop ffinfo ''format'') \<or> \<not> truthy (get_prop ffinfo ''streams'')
      then Inr \<lparr>ok = False, reason = Some ''missing_format_or_streams'', reasons = None, details = None\<rparr>
      else
        let fmt = js_or (get_prop ffinfo ''format'') (JObj []);
            streams = js_or (get_prop ffinfo ''streams'') (JArr []);
            a_ok = (case get_prop fmt ''format_name'' of JStr s \<Rightarrow> str_includes s ''mp4'' | _ \<Rightarrow> False)
        in on_ok (method_some streams (stream_is ''video'' ''h264'' ''avc1'')) (\<lambda>video_ok.
           on_ok (method_some streams (stream_is ''audio'' ''aac'' ''mp4a'')) (\<lambda>audio_ok.
             let nb_streams = nb_streams_of fmt;
                 d_ok = (\<not> isNaN nb_streams \<and> js_ge nb_streams (Fin 2));
                 duration = parseFloat (js_or (get_prop fmt ''duration'') (JNum 0));
                 e_ok = (\<not> isNaN duration \<and> js_gt duration (Fin 0))
             in Inr \<lparr>ok = a_ok \<and> video_ok \<and> audio_ok \<and> d_ok \<and> e_ok,
                     reason = None,
                     reasons = Some (failed_reasons
                       [(a_ok, ''container_not_mp4''), (video_ok, ''video_stream_not_h264_avc1''),
                        (audio_ok, ''audio_stream_not_aac_mp4a''), (d_ok, ''nb_streams_lt_2''),
                        (e_ok, ''duration_invalid'')]),
                     details = Some \<lparr>d_a_ok = a_ok, d_video_ok = video_ok, d_audio_ok = audio_ok,
                                     d_nb_streams = nb_streams, d_duration = duration,
                                     d_size = None\<rparr>\<rparr>)))"

section \<open>The file system\<close>

text \<open>
  A file carries what \<open>statSync\<close> reports, whether \<open>unlinkSync\<close> and \<open>utimesSync\<close>
  are refused on it, and what \<open>ffprobe\<close> prints for it after \<open>JSON.parse\<close>
  (\<open>None\<close> when ffprobe fails or its output does not parse).  A directory lists its
  entries in the order \<open>readdirSync\<close> returns them.
\<close>

record fileinfo =
  st_size :: nat
  st_mtime :: int
  st_atime :: int
  deny_unlink :: bool
  deny_utimes :: bool
  media :: "jsval option"

datatype fsnode = FileNode string fileinfo | DirNode string "fsnode list"

fun node_name :: "fsnode \<Rightarrow> string" where
  "node_name (FileNode n f) = n"
| "node_name (DirNode n kids) = n"

definition find_node :: "fsnode list \<Rightarrow> string \<Rightarrow> fsnode option" where
  "find_node ns c = find (\<lambda>n. node_name n = c) ns"

fun lookup :: "fsnode list \<Rightarrow> path \<Rightarrow> fsnode option" where
  "lookup ns [] = None"
| "lookup ns [c] = find_node ns c"
| "lookup ns (c # d # cs) =
     (case find_node ns c of
        Some (DirNode m kids) \<Rightarrow> lookup kids (d # cs)
      | _ \<Rightarrow> None)"

definition existsSync :: "fsnode list \<Rightarrow> path \<Rightarrow> bool" where
  "existsSync tree p = (lookup tree p \<noteq> None)"

fun remove_file :: "fsnode list \<Rightarrow> path \<Rightarrow> fsnode list" where
  "remove_file ns [] = ns"
| "remove_file ns [c] = filter (\<lambda>n. node_name n \<noteq> c) ns"
| "remove_file ns (c # d # cs) =
     map (\<lambda>n. case n of
                 DirNode m kids \<Rightarrow> if m = c then DirNode m (remove_file kids (d # cs)) else n
               | FileNode m f \<Rightarrow> n) ns"

fun write_file :: "fsnode list \<Rightarrow> path \<Rightarrow> fileinfo \<Rightarrow> fsnode list" where
  "write_file ns [] f = ns"
| "write_file ns [c] f =
     (if find_node ns c = None then ns @ [FileNode c f]
      else map (\<lambda>n. case n of
                       FileNode m g \<Rightarrow> if m = c then FileNode m f else n
                     | DirNode m kids \<Rightarrow> n) ns)"
| "write_file ns (c # d # cs) f =
     map (\<lambda>n. case n of
                 DirNode m kids \<Rightarrow> if m = c then DirNode m (write_file kids (d # cs) f) else n
               | FileNode m g \<Rightarrow> n) ns"

fun set_times :: "fsnode list \<Rightarrow> path \<Rightarrow> int \<Rightarrow> int \<Rightarrow> fsnode list" where
  "set_times ns [] a m = ns"
| "set_times ns [c] a m =
     map (\<lambda>n. case n of
                 FileNode k g \<Rightarrow> if k = c then FileNode k (g\<lparr>st_atime := a, st_mtime := m\<rparr>) else n
               | DirNode k kids \<Rightarrow> n) ns"
| "set_times ns (c # d # cs) a m =
     map (\<lambda>n. case n of
                 DirNode k kids \<Rightarrow> if k = c then DirNode k (set_times kids (d # cs) a m) else n
               | FileNode k g \<Rightarrow> n) ns"

fun mkdirp :: "fsnode list \<Rightarrow> path \<Rightarrow> fsnode list option" where
  "mkdirp ns [] = Some ns"
| "mkdirp ns (c # cs) =
     (case find_node ns c of
        None \<Rightarrow> (case mkdirp [] cs of
                   Some kids \<Rightarrow> Some (ns @ [DirNode c kids])
                 | None \<Rightarrow> None)
      | Some (FileNode m f) \<Rightarrow> None
      | Some (DirNode m kids) \<Rightarrow>
          (case mkdirp kids cs of
             Some kids' \<Rightarrow> Some (map (\<lambda>n. if node_name n = c then DirNode c kids' else n) ns)
           | None \<Rightarrow> None))"

text \<open>\<open>fs.unlinkSync\<close>: throws when there is no such file, when the path is a
  directory, or when the file refuses it.\<close>

definition unlinkSync :: "path \<Rightarrow> fsnode list \<Rightarrow> js_error + fsnode list" where
  "unlinkSync p tree =
     (case lookup tree p of
        None \<Rightarrow> Inl (SystemError ''ENOENT'')
      | Some (DirNode m kids) \<Rightarrow> Inl (SystemError ''EPERM'')
      | Some (FileNode m f) \<Rightarrow>
          if deny_unlink f then Inl (SystemError ''EPERM'') else Inr (remove_file tree p))"

definition utimesSync :: "path \<Rightarrow> int \<Rightarrow> int \<Rightarrow> fsnode list \<Rightarrow> js_error + fsnode list" where
  "utimesSync p a m tree =
     (case lookup tree p of
        None \<Rightarrow> Inl (SystemError ''ENOENT'')
      | Some (DirNode k kids) \<Rightarrow> Inr tree
      | Some (FileNode k f) \<Rightarrow>
          if deny_utimes f then Inl (SystemError ''EPERM'') else Inr (set_times tree p a m))"

definition mkdirSync :: "path \<Rightarrow> fsnode list \<Rightarrow> js_error + fsnode list" where
  "mkdirSync p tree = (case mkdirp tree p of None \<Rightarrow> Inl (SystemError ''ENOTDIR'') | Some tree' \<Rightarrow> Inr tree')"

text \<open>
  What a path shows: nothing, a directory (\<open>Some None\<close>) or a file with its
  attributes.
\<close>

fun node_info :: "fsnode \<Rightarrow> fileinfo option" where
  "node_info (FileNode n f) = Some f"
| "node_info (DirNode n kids) = None"

definition peek :: "fsnode list \<Rightarrow> path \<Rightarrow> fileinfo option option" where
  "peek tree p = map_option node_info (lookup tree p)"

text \<open>The shape of the tree operations below the first component: the step into the
  directories of one name, and the time stamps of the files of one name.\<close>

definition in_dir :: "string \<Rightarrow> (fsnode list \<Rightarrow> fsnode list) \<Rightarrow> fsnode \<Rightarrow> fsnode" where
  "in_dir c h n = (case n of DirNode m kids \<Rightarrow> if m = c then DirNode m (h kids) else n | FileNode m f \<Rightarrow> n)"

definition set_node_times :: "string \<Rightarrow> int \<Rightarrow> int \<Rightarrow> fsnode \<Rightarrow> fsnode" where
  "set_node_times c a m n =
     (case n of
        FileNode k g \<Rightarrow> if k = c then FileNode k (g\<lparr>st_atime := a, st_mtime := m\<rparr>) else n
      | DirNode k kids \<Rightarrow> n)"

section \<open>The world the scripts run in\<close>

datatype level = DEBUG | INFO | WARNING | ERROR | CRITICAL

text \<open>One constructor for each message template of the three scripts.\<close>

datatype message =
    Newline
  | DiskSpaceError path string
  | BatchSummary nat nat
  | FfprobeFailed path
  | SkipExists path
  | SourceDeleted path
  | SourceDeleteFailed path js_error
  | TimestampReadFailed js_error
  | DurationUnknown path
  | NoProgressBar path
  | ConvertStart path path
  | FfmpegDone path
  | ValidationPassed path
  | TimestampsCopied path
  | TimestampCopyFailed js_error
  | InvalidOutputDeleted path
  | InvalidOutputDeleteFailed path js_error
  | RecordedForReview path
  | ConvertOk path
  | ConvertFailed path int
  | BrokenOutputDeleted path
  | BrokenOutputDeleteFailed path js_error
  | FfmpegProcessError string
  | FfmpegNotFound
  | TargetDirMissing path
  | DiskSpaceLow path
  | TaskDone nat

datatype log_line = Header | Blank | Line level message

text \<open>What \<open>spawnSync\<close> returns, as far as the script reads it.\<close>

record spawn_result =
  sp_error :: "string option"
  sp_stdout :: string

text \<open>
  How a spawned transcoder ends.  A child that ran emits \<open>close\<close> with its exit code;
  the file it left at its output path, if it wrote one, comes with it.  A child that
  could not be spawned emits \<open>error\<close>, with the error's text, and then, in the same
  tick, \<open>close\<close> with the negated errno as the code; it wrote nothing.
\<close>

datatype child_event = ChildError string int | ChildClose int "fileinfo option"

text \<open>What \<open>ffmpeg -i\<close> tells \<open>getDuration\<close>: the command succeeded, or it failed and
  its stderr has a duration (hours, minutes, seconds, hundredths) or has none.\<close>

datatype duration_report = InfoOk | InfoDuration nat nat nat nat | InfoNoMatch

text \<open>A ledger entry: the source path, the joined reasons, and whether the text ends
  with a newline.\<close>

record review_entry =
  re_path :: path
  re_reasons :: string
  re_newline :: bool

text \<open>
  The state the scripts read and write: the file tree, the log file, the manual-review
  ledger (\<open>None\<close> while the file does not exist), the transcoder runs started so far
  (input paths), the global \<open>totalDurationSeconds\<close>; and the environment: the
  platform, the answer of \<open>fsutil\<close> for a volume, the outcome of the \<open>n\<close>-th
  transcoder run on given input and output paths, the report of \<open>ffmpeg -i\<close>, and
  whether the ledger file refuses to be unlinked.  The log file and the ledger are
  kept beside the tree; the tree decides whether the directory they live in exists.
\<close>

record world =
  fs :: "fsnode list"
  logfile :: "log_line list"
  review :: "review_entry list option"
  spawned :: "path list"
  totalDurationSeconds :: rat
  platform :: string
  fsutil :: "string \<Rightarrow> spawn_result"
  ffmpeg :: "nat \<Rightarrow> path \<Rightarrow> path \<Rightarrow> child_event"
  ffmpeg_info :: "path \<Rightarrow> duration_report"
  review_locked :: bool

definition writeLog :: "message \<Rightarrow> level \<Rightarrow> world \<Rightarrow> world" where
  "writeLog m lv w = w\<lparr>logfile := logfile w @ [if m = Newline then Blank else Line lv m]\<rparr>"

text \<open>The validation-aware script and \<open>src/convert.js\<close> have no special case for
  a newline.\<close>

definition writeLog_v :: "message \<Rightarrow> level \<Rightarrow> world \<Rightarrow> world" where
  "writeLog_v m lv w = w\<lparr>logfile := logfile w @ [Line lv m]\<rparr>"

text \<open>\<open>spawn(FFMPEG_CMD, args)\<close> up to the child's first event: the run is recorded and
  the file the child wrote, if any, is at the output path.\<close>

definition spawn_ffmpeg :: "path \<Rightarrow> path \<Rightarrow> world \<Rightarrow> child_event \<times> world" where
  "spawn_ffmpeg inputPath outputPath w =
     (let ev = ffmpeg w (length (spawned w)) inputPath outputPath;
          w' = w\<lparr>spawned := spawned w @ [inputPath]\<rparr>
      in case ev of
           ChildClose code (Some f) \<Rightarrow> (ev, w'\<lparr>fs := write_file (fs w') outputPath f\<rparr>)
         | _ \<Rightarrow> (ev, w'))"

text \<open>The state a run, a worker or a listener ends in, whether it returned or threw.\<close>

fun final :: "(js_error \<times> world) + world \<Rightarrow> world" where
  "final (Inl (e, w)) = w"
| "final (Inr w) = w"

section \<open>The space-aware variant\<close>

definition isDel :: bool where
  "isDel = True"

definition BASE_DIR :: path where
  "BASE_DIR = [''D:'', ''04_Temp'', [CHR 0xE7, CHR 0x9B, CHR 0xB4, CHR 0xE6, CHR 0x92, CHR 0xAD]]"

definition TARGET_DIR :: path where
  "TARGET_DIR = path_join BASE_DIR
     [CHR 0xE5, CHR 0xBF, CHR 0xAB, CHR 0xE6, CHR 0x89, CHR 0x8B,
      CHR 0xE7, CHR 0x9B, CHR 0xB4, CHR 0xE6, CHR 0x92, CHR 0xAD]"

definition OUTPUT_DIR :: path where
  "OUTPUT_DIR = BASE_DIR"

definition extensionsToConvert :: "string list" where
  "extensionsToConvert = [''.ts'', ''.flv'']"

definition SPACE_THRESHOLD :: nat where
  "SPACE_THRESHOLD = 5 * 1024 * 1024 * 1024"

definition MAX_BATCH_SIZE_BYTES :: nat where
  "MAX_BATCH_SIZE_BYTES = 70 * 1024 * 1024 * 1024"

subsection \<open>getAvailableDiskSpace\<close>

text \<open>The first match of \<open>/([\d,]+)/\<close>: the first maximal run of digits and commas.\<close>

definition match_digits_commas :: "string \<Rightarrow> string option" where
  "match_digits_commas s =
     (let m = takeWhile (\<lambda>c. is_digit c \<or> c = CHR '','')
                (dropWhile (\<lambda>c. \<not> (is_digit c \<or> c = CHR '','')) s)
      in if m = [] then None else Some m)"

text \<open>\<open>directory.split(path.sep)[0] + '\\'\<close>: the drive with a backslash.\<close>

definition volume_of :: "path \<Rightarrow> string" where
  "volume_of directory = (case directory of [] \<Rightarrow> [] | drive # rest \<Rightarrow> drive) @ [CHR 0x5C]"

definition getAvailableDiskSpace :: "path \<Rightarrow> world \<Rightarrow> (js_error \<times> world) + (jsnum \<times> world)" where
  "getAvailableDiskSpace directory w =
     (if platform w = ''win32'' then
        let result = fsutil w (volume_of directory)
        in case sp_error result of
             Some err \<Rightarrow> Inr (Fin 0, writeLog (DiskSpaceError directory err) ERROR w)
           | None \<Rightarrow>
               (case match_digits_commas (sp_stdout result) of
                  Some freeSpaceMatch \<Rightarrow>
                    Inr (parseInt_str (filter (\<lambda>c. c \<noteq> CHR '','') freeSpaceMatch), w)
                | None \<Rightarrow> Inr (Fin 0, w))
      else Inl (Error ''Unsupported platform'', w))"

subsection \<open>collectFiles\<close>

record filetask =
  fullPath :: path
  tsize :: nat
  mtime :: int
  atime :: int

text \<open>
  \<open>walk\<close> goes through the entries of one directory; the pair it threads is
  \<open>fileList\<close> and \<open>totalSize\<close>, and the flag it returns is the stop signal.
\<close>

fun walk :: "path \<Rightarrow> fsnode list \<Rightarrow> filetask list \<times> nat \<Rightarrow> bool \<times> filetask list \<times> nat" where
  "walk currentDir [] st = (False, st)"
| "walk currentDir (DirNode file kids # files) st =
     (case walk (path_join currentDir file) kids st of
        (True, st') \<Rightarrow> (True, st')
      | (False, st') \<Rightarrow> walk currentDir files st')"
| "walk currentDir (FileNode file stat # files) (fileList, totalSize) =
     (if toLowerCase (extname file) \<notin> set extensionsToConvert
      then walk currentDir files (fileList, totalSize)
      else if totalSize + st_size stat > MAX_BATCH_SIZE_BYTES
      then (True, fileList, totalSize)
      else walk currentDir files
             (fileList @ [\<lparr>fullPath = path_join currentDir file, tsize = st_size stat,
                           mtime = st_mtime stat, atime = st_atime stat\<rparr>],
              totalSize + st_size stat))"

text \<open>\<open>fileList.sort((a, b) => a.mtime - b.mtime)\<close> is a stable sort on \<open>mtime\<close>.\<close>

definition collectFiles :: "path \<Rightarrow> world \<Rightarrow> (js_error \<times> world) + (filetask list \<times> world)" where
  "collectFiles dir w =
     (case lookup (fs w) dir of
        None \<Rightarrow> Inl (SystemError ''ENOENT'', w)
      | Some (FileNode m f) \<Rightarrow> Inl (SystemError ''ENOTDIR'', w)
      | Some (DirNode m kids) \<Rightarrow>
          (case walk dir kids ([], 0) of
             (stop, fileList, totalSize) \<Rightarrow>
               Inr (sort_key mtime fileList,
                    writeLog Newline INFO
                      (writeLog (BatchSummary (length fileList) totalSize) INFO w))))"

text \<open>
  The traversal as the specification words it: \<open>candidates\<close> lists the matching files
  of the whole tree in the order the traversal meets them, across directories, and
  \<open>accept_until_full\<close> accepts them one after the other until the first one that
  would take the running total over the limit; nothing after that one is looked at.
\<close>

fun candidates :: "path \<Rightarrow> fsnode list \<Rightarrow> filetask list" where
  "candidates currentDir [] = []"
| "candidates currentDir (DirNode file kids # files) =
     candidates (path_join currentDir file) kids @ candidates currentDir files"
| "candidates currentDir (FileNode file stat # files) =
     (if toLowerCase (extname file) \<in> set extensionsToConvert
      then [\<lparr>fullPath = path_join currentDir file, tsize = st_size stat,
              mtime = st_mtime stat, atime = st_atime stat\<rparr>]
      else []) @ candidates currentDir files"

fun accept_until_full :: "nat \<Rightarrow> filetask list \<Rightarrow> filetask list" where
  "accept_until_full running [] = []"
| "accept_until_full running (c # cs) =
     (if running + tsize c > MAX_BATCH_SIZE_BYTES then []
      else c # accept_until_full (running + tsize c) cs)"

definition total_size :: "filetask list \<Rightarrow> nat" where
  "total_size batch = sum_list (map tsize batch)"

subsection \<open>The conversion worker\<close>

definition path_extname :: "path \<Rightarrow> string" where
  "path_extname p = extname (if p = [] then [] else last p)"

definition outputPath_of :: "path \<Rightarrow> path" where
  "outputPath_of inputPath =
     path_join OUTPUT_DIR (basename inputPath (path_extname inputPath) @ ''.mp4'')"

text \<open>
  The blocks of the worker that the variants share take the variant's \<open>writeLog\<close> as
  \<open>lg\<close>.  Each is a \<open>try\<close> block with its \<open>catch\<close>: the error of the file-system call
  is logged and goes no further.
\<close>

definition runFfprobeJson ::
  "(message \<Rightarrow> level \<Rightarrow> world \<Rightarrow> world) \<Rightarrow> path \<Rightarrow> world \<Rightarrow> jsval \<times> world" where
  "runFfprobeJson lg filePath w =
     (case lookup (fs w) filePath of
        Some (FileNode m f) \<Rightarrow>
          (case media f of
             Some doc \<Rightarrow> (doc, w)
           | None \<Rightarrow> (JNull, lg (FfprobeFailed filePath) ERROR w))
      | _ \<Rightarrow> (JNull, lg (FfprobeFailed filePath) ERROR w))"

definition delete_source ::
  "(message \<Rightarrow> level \<Rightarrow> world \<Rightarrow> world) \<Rightarrow> path \<Rightarrow> world \<Rightarrow> world" where
  "delete_source lg inputPath w =
     (if isDel then
        (case unlinkSync inputPath (fs w) of
           Inr tree' \<Rightarrow> lg (SourceDeleted inputPath) INFO (w\<lparr>fs := tree'\<rparr>)
         | Inl delErr \<Rightarrow> lg (SourceDeleteFailed inputPath delErr) WARNING w)
      else w)"

definition copy_timestamps ::
  "(message \<Rightarrow> level \<Rightarrow> world \<Rightarrow> world) \<Rightarrow> path \<Rightarrow> int \<Rightarrow> int \<Rightarrow> world \<Rightarrow> world" where
  "copy_timestamps lg outputPath a m w =
     (case utimesSync outputPath a m (fs w) of
        Inr tree' \<Rightarrow> lg (TimestampsCopied outputPath) INFO (w\<lparr>fs := tree'\<rparr>)
      | Inl utimesError \<Rightarrow> lg (TimestampCopyFailed utimesError) WARNING w)"

definition delete_invalid_output ::
  "(message \<Rightarrow> level \<Rightarrow> world \<Rightarrow> world) \<Rightarrow> path \<Rightarrow> world \<Rightarrow> world" where
  "delete_invalid_output lg outputPath w =
     (if existsSync (fs w) outputPath then
        (case unlinkSync outputPath (fs w) of
           Inr tree' \<Rightarrow> lg (InvalidOutputDeleted outputPath) WARNING (w\<lparr>fs := tree'\<rparr>)
         | Inl e \<Rightarrow> lg (InvalidOutputDeleteFailed outputPath e) WARNING w)
      else w)"

text \<open>
  \<open>validation.reasons.join(', ')\<close>, the append to the ledger and the log line after
  it.  On a result without \<open>reasons\<close> the \<open>join\<close> throws, outside every \<open>try\<close>.
\<close>

definition record_for_review ::
  "(message \<Rightarrow> level \<Rightarrow> world \<Rightarrow> world) \<Rightarrow> bool \<Rightarrow> path \<Rightarrow> validation \<Rightarrow> world
     \<Rightarrow> (js_error \<times> world) + world" where
  "record_for_review lg nl inputPath validation w =
     (case reasons validation of
        None \<Rightarrow> Inl (TypeError, w)
      | Some rs \<Rightarrow>
          Inr (lg (RecordedForReview inputPath) WARNING
                 (w\<lparr>review := Some ((case review w of None \<Rightarrow> [] | Some es \<Rightarrow> es) @
                        [\<lparr>re_path = inputPath, re_reasons = join_with '', '' rs,
                          re_newline = nl\<rparr>])\<rparr>)))"

text \<open>
  The \<open>close\<close> listener.  It is an \<open>async\<close> function: when it throws, \<open>resolve()\<close> is
  never reached and the promise the worker awaits stays pending; \<open>Inl\<close> is that
  outcome, with the state the listener left.
\<close>

definition on_close :: "filetask \<Rightarrow> path \<Rightarrow> int \<Rightarrow> world \<Rightarrow> (js_error \<times> world) + world" where
  "on_close t outputPath code w =
     (if code = 0 then
        (case runFfprobeJson writeLog outputPath (writeLog (FfmpegDone outputPath) INFO w) of
           (ffinfo, w1) \<Rightarrow>
             (case validateMp4ByFfprobe ffinfo (Fin (of_nat (tsize t))) of
                Inl e \<Rightarrow> Inl (e, w1)
              | Inr validation \<Rightarrow>
                  if ok validation then
                    Inr (writeLog Newline INFO
                          (delete_source writeLog (fullPath t)
                            (copy_timestamps writeLog outputPath (atime t) (mtime t)
                              (writeLog (ValidationPassed outputPath) INFO w1))))
                  else
                    (case record_for_review writeLog False (fullPath t) validation
                            (delete_invalid_output writeLog outputPath w1) of
                       Inl e \<Rightarrow> Inl e
                     | Inr w2 \<Rightarrow> Inr (writeLog Newline INFO w2))))
      else
        Inr (writeLog Newline INFO
              (let w1 = writeLog (ConvertFailed (fullPath t) code) ERROR w
               in if existsSync (fs w1) outputPath then
                    (case unlinkSync outputPath (fs w1) of
                       Inr tree' \<Rightarrow> writeLog (BrokenOutputDeleted outputPath) INFO (w1\<lparr>fs := tree'\<rparr>)
                     | Inl e \<Rightarrow> writeLog (BrokenOutputDeleteFailed outputPath e) WARNING w1)
                  else w1)))"

text \<open>
  The worker.  When the child cannot be spawned the \<open>error\<close> listener logs and
  resolves the promise, and the \<open>close\<close> listener runs after it, before the worker's
  caller goes on; the promise is resolved whatever that listener does.
\<close>

definition convertFlvToMp4 :: "filetask \<Rightarrow> world \<Rightarrow> (js_error \<times> world) + world" where
  "convertFlvToMp4 t w =
     (let inputPath = fullPath t; outputPath = outputPath_of inputPath
      in if existsSync (fs w) outputPath then
           Inr (writeLog Newline INFO
                 (delete_source writeLog inputPath (writeLog (SkipExists outputPath) WARNING w)))
         else
           (case spawn_ffmpeg inputPath outputPath
                   (writeLog (ConvertStart inputPath outputPath) INFO w) of
              (ChildError msg code, w1) \<Rightarrow>
                Inr (final (on_close t outputPath code
                       (writeLog Newline INFO (writeLog (FfmpegProcessError msg) CRITICAL w1))))
            | (ChildClose code out, w1) \<Rightarrow> on_close t outputPath code w1))"

subsection \<open>main\<close>

text \<open>The loop of \<open>main\<close>: the next worker starts when the promise of the previous one
  resolves, so a promise that stays pending ends the run there.\<close>

fun convert_each :: "filetask list \<Rightarrow> world \<Rightarrow> (js_error \<times> world) + world" where
  "convert_each [] w = Inr w"
| "convert_each (fileInfo # rest) w =
     (case convertFlvToMp4 fileInfo w of
        Inl e \<Rightarrow> Inl e
      | Inr w' \<Rightarrow> convert_each rest w')"

text \<open>
  \<open>fs.writeFileSync(LOG_FILE, header)\<close>, the first statement of \<open>main\<close>: the log file
  is in \<open>BASE_DIR\<close>, and the call throws when that is not a directory of the tree.
\<close>

definition start_log :: "world \<Rightarrow> (js_error \<times> world) + world" where
  "start_log w =
     (case lookup (fs w) BASE_DIR of
        None \<Rightarrow> Inl (SystemError ''ENOENT'', w)
      | Some (FileNode m f) \<Rightarrow> Inl (SystemError ''ENOTDIR'', w)
      | Some (DirNode m kids) \<Rightarrow> Inr (w\<lparr>logfile := [Header]\<rparr>))"

text \<open>\<open>if (fs.existsSync(MANUAL_REVIEW_FILE)) fs.unlinkSync(MANUAL_REVIEW_FILE)\<close>: the
  unlink of a ledger that is there throws when the file refuses it.\<close>

definition remove_ledger :: "world \<Rightarrow> (js_error \<times> world) + world" where
  "remove_ledger w =
     (if review w \<noteq> None then
        (if review_locked w then Inl (SystemError ''EPERM'', w) else Inr (w\<lparr>review := None\<rparr>))
      else Inr w)"

text \<open>Nothing in \<open>main\<close> catches: what a statement throws ends the run there, with the
  state it left.\<close>

definition main :: "world \<Rightarrow> (js_error \<times> world) + world" where
  "main w0 =
     (case start_log w0 of
        Inl e \<Rightarrow> Inl e
      | Inr w1 \<Rightarrow>
         if \<not> existsSync (fs w1) TARGET_DIR
         then Inr (writeLog (TargetDirMissing TARGET_DIR) CRITICAL w1)
         else
           (case (if \<not> existsSync (fs w1) OUTPUT_DIR then mkdirSync OUTPUT_DIR (fs w1)
                  else Inr (fs w1)) of
              Inl e \<Rightarrow> Inl (e, w1)
            | Inr tree' \<Rightarrow>
               (case remove_ledger (w1\<lparr>fs := tree'\<rparr>) of
                  Inl e \<Rightarrow> Inl e
                | Inr w1' \<Rightarrow>
                   (case getAvailableDiskSpace OUTPUT_DIR w1' of
                      Inl e \<Rightarrow> Inl e
                    | Inr (availableSpace, w2) \<Rightarrow>
                        if js_lt availableSpace (Fin (of_nat SPACE_THRESHOLD))
                        then Inr (writeLog (DiskSpaceLow OUTPUT_DIR) CRITICAL w2)
                        else
                          (case collectFiles TARGET_DIR w2 of
                             Inl e \<Rightarrow> Inl e
                           | Inr (filesToConvert, w3) \<Rightarrow>
                               (case convert_each filesToConvert w3 of
                                  Inl e \<Rightarrow> Inl e
                                | Inr w4 \<Rightarrow>
                                    Inr (writeLog (TaskDone (length filesToConvert)) INFO w4)))))))"

section \<open>The validation-aware variant\<close>

text \<open>Its \<open>BASE_DIR\<close>, \<open>OUTPUT_DIR\<close>, \<open>extensionsToConvert\<close> and \<open>isDel\<close> are those of
  the space-aware variant, so the output path of a source is the same.\<close>

text \<open>\<open>fs.statSync(p)\<close>, as far as the worker reads it: \<open>mtime\<close> and \<open>atime\<close>.
  Directories carry no stamps here and report zero.\<close>

definition statSync :: "path \<Rightarrow> fsnode list \<Rightarrow> js_error + int \<times> int" where
  "statSync p tree =
     (case lookup tree p of
        None \<Rightarrow> Inl (SystemError ''ENOENT'')
      | Some (FileNode m f) \<Rightarrow> Inr (st_mtime f, st_atime f)
      | Some (DirNode m kids) \<Rightarrow> Inr (0, 0))"

definition read_timestamps :: "path \<Rightarrow> world \<Rightarrow> (int \<times> int) option \<times> world" where
  "read_timestamps inputPath w =
     (case statSync inputPath (fs w) of
        Inr stamps \<Rightarrow> (Some stamps, w)
      | Inl e \<Rightarrow> (None, writeLog_v (TimestampReadFailed e) WARNING w))"

definition copy_timestamps_opt :: "path \<Rightarrow> (int \<times> int) option \<Rightarrow> world \<Rightarrow> world" where
  "copy_timestamps_opt outputPath stamps w =
     (case stamps of
        Some (originalMtime, originalAtime) \<Rightarrow>
          copy_timestamps writeLog_v outputPath originalAtime originalMtime w
      | None \<Rightarrow> w)"

definition on_close_v ::
  "path \<Rightarrow> path \<Rightarrow> (int \<times> int) option \<Rightarrow> int \<Rightarrow> world \<Rightarrow> (js_error \<times> world) + world" where
  "on_close_v inputPath outputPath stamps code w =
     (if code = 0 then
        (case runFfprobeJson writeLog_v outputPath (writeLog_v (FfmpegDone outputPath) INFO w) of
           (ffinfo, w1) \<Rightarrow>
             (case validateMp4ByFfprobe_v ffinfo of
                Inl e \<Rightarrow> Inl (e, w1)
              | Inr validation \<Rightarrow>
                  if ok validation then
                    Inr (delete_source writeLog_v inputPath
                          (copy_timestamps_opt outputPath stamps
                            (writeLog_v (ValidationPassed outputPath) INFO w1)))
                  else
                    record_for_review writeLog_v True inputPath validation
                      (delete_invalid_output writeLog_v outputPath w1)))
      else
        Inr (let w1 = writeLog_v (ConvertFailed inputPath code) ERROR w
             in if existsSync (fs w1) outputPath then
                  (case unlinkSync outputPath (fs w1) of
                     Inr tree' \<Rightarrow> writeLog_v (BrokenOutputDeleted outputPath) INFO (w1\<lparr>fs := tree'\<rparr>)
                   | Inl e \<Rightarrow> w1)
                else w1))"

definition convertFlvToMp4_v :: "path \<Rightarrow> world \<Rightarrow> (js_error \<times> world) + world" where
  "convertFlvToMp4_v inputPath w =
     (let outputPath = outputPath_of inputPath
      in if existsSync (fs w) outputPath then Inr (writeLog_v (SkipExists outputPath) WARNING w)
         else
           (case read_timestamps inputPath w of
              (stamps, w1) \<Rightarrow>
                (case spawn_ffmpeg inputPath outputPath
                        (writeLog_v (ConvertStart inputPath outputPath) INFO w1) of
                   (ChildError msg code, w2) \<Rightarrow>
                     Inr (final (on_close_v inputPath outputPath stamps code
                            (writeLog_v (FfmpegProcessError msg) CRITICAL w2)))
                 | (ChildClose code out, w2) \<Rightarrow> on_close_v inputPath outputPath stamps code w2)))"

section \<open>src/convert.js\<close>

text \<open>The output is written next to the source: the source path with its extension
  replaced.\<close>

definition outputPath_js :: "path \<Rightarrow> path" where
  "outputPath_js inputPath =
     (if inputPath = [] then [''.mp4'']
      else path_join (butlast inputPath)
             (take (length (last inputPath) - length (path_extname inputPath)) (last inputPath)
              @ ''.mp4''))"

definition getDuration :: "path \<Rightarrow> world \<Rightarrow> rat \<times> world" where
  "getDuration inputPath w =
     (case ffmpeg_info w inputPath of
        InfoOk \<Rightarrow> (0, w)
      | InfoDuration hours minutes seconds hundredths \<Rightarrow>
          (of_nat hours * 3600 + of_nat minutes * 60 + of_nat seconds + of_nat hundredths / 100, w)
      | InfoNoMatch \<Rightarrow> (0, writeLog_v (DurationUnknown inputPath) WARNING w))"

text \<open>The \<open>close\<close> listener of \<open>convertVideoStreamCopy\<close>.\<close>

definition on_close_js ::
  "path \<Rightarrow> path \<Rightarrow> (int \<times> int) option \<Rightarrow> int \<Rightarrow> world \<Rightarrow> world" where
  "on_close_js inputPath outputPath stamps code w =
     (if code = 0
      then writeLog_v (ConvertOk inputPath) INFO (copy_timestamps_opt outputPath stamps w)
      else writeLog_v (ConvertFailed inputPath code) ERROR w)"

definition convertVideoStreamCopy :: "path \<Rightarrow> world \<Rightarrow> world" where
  "convertVideoStreamCopy inputPath w =
     (let outputPath = outputPath_js inputPath
      in if existsSync (fs w) outputPath then writeLog_v (SkipExists outputPath) WARNING w
         else
           (case read_timestamps inputPath w of
              (stamps, w1) \<Rightarrow>
                (case getDuration inputPath w1 of
                   (d, w2) \<Rightarrow>
                     let w3 = w2\<lparr>totalDurationSeconds := d\<rparr>;
                         w4 = (if d = 0 then writeLog_v (NoProgressBar inputPath) WARNING w3 else w3)
                     in (case spawn_ffmpeg inputPath outputPath
                                (writeLog_v (ConvertStart inputPath outputPath) INFO w4) of
                           (ChildClose code out, w5) \<Rightarrow>
                             on_close_js inputPath outputPath stamps code w5
                         | (ChildError errcode code, w5) \<Rightarrow>
                             on_close_js inputPath outputPath stamps code
                               (if errcode = ''ENOENT'' then writeLog_v FfmpegNotFound CRITICAL w5
                                else writeLog_v (FfmpegProcessError errcode) ERROR w5)))))"

section \<open>Observations on a run\<close>

text \<open>The log says that the output at a path passed validation.\<close>

definition validated_in_log :: "world \<Rightarrow> path \<Rightarrow> bool" where
  "validated_in_log w out = (Line INFO (ValidationPassed out) \<in> set (logfile w))"

text \<open>The log says that the worker went past its skip test for a source and an
  output path: the line it writes before it spawns the transcoder.  A worker that
  takes the skip path writes the skip warning instead.\<close>

definition started_in_log :: "world \<Rightarrow> path \<Rightarrow> path \<Rightarrow> bool" where
  "started_in_log w inputPath out = (Line INFO (ConvertStart inputPath out) \<in> set (logfile w))"

text \<open>The path is a directory of the tree.\<close>

definition is_dir :: "fsnode list \<Rightarrow> path \<Rightarrow> bool" where
  "is_dir tree p = (case lookup tree p of Some (DirNode m kids) \<Rightarrow> True | _ \<Rightarrow> False)"

text \<open>Two states with the same tree, the same transcoder runs and the same validated
  outputs and started conversions in the log; and a state a run starts its conversions
  from: the tree and the transcoder runs of the state the run began in, and no
  validated output and no started conversion in the log yet.\<close>

definition same_run :: "world \<Rightarrow> world \<Rightarrow> bool" where
  "same_run a b = (fs a = fs b \<and> spawned a = spawned b \<and>
                   (\<forall>q. validated_in_log a q = validated_in_log b q) \<and>
                   (\<forall>i q. started_in_log a i q = started_in_log b i q))"


text \<open>
  What every variant does for a transcoder that exits with a code other than zero: the
  error is in the log, the ledger is as it was, the source is as it was.  And the tree
  as the transcoder left it: with the file it wrote at the output path, if it wrote one.
\<close>

definition failure_handled :: "path \<Rightarrow> int \<Rightarrow> world \<Rightarrow> world \<Rightarrow> bool" where
  "failure_handled inputPath code w w' =
     (Line ERROR (ConvertFailed inputPath code) \<in> set (logfile w') \<and>
      review w' = review w \<and>
      peek (fs w') inputPath = peek (fs w) inputPath)"

definition left_by_transcoder :: "fsnode list \<Rightarrow> path \<Rightarrow> fileinfo option \<Rightarrow> fsnode list" where
  "left_by_transcoder tree out written =
     (case written of Some f \<Rightarrow> write_file tree out f | None \<Rightarrow> tree)"

section \<open>Example worlds\<close>

text \<open>A tree that holds the given entries in the directory at the given path.\<close>

fun tree_at :: "path \<Rightarrow> fsnode list \<Rightarrow> fsnode list" where
  "tree_at [] entries = entries"
| "tree_at (c # cs) entries = [DirNode c (tree_at cs entries)]"

definition plain_file :: "nat \<Rightarrow> int \<Rightarrow> fileinfo" where
  "plain_file sz t =
     \<lparr>st_size = sz, st_mtime = t, st_atime = t, deny_unlink = False, deny_utimes = False,
      media = None\<rparr>"

definition GB :: nat where
  "GB = 1024 * 1024 * 1024"

text \<open>A world on Windows with 100 GB free in which every transcoder run exits with
  code 1 and writes nothing.\<close>

definition world_of :: "fsnode list \<Rightarrow> world" where
  "world_of tree =
     \<lparr>fs = tree, logfile = [], review = None, spawned = [], totalDurationSeconds = 0,
      platform = ''win32'',
      fsutil = (\<lambda>volume. \<lparr>sp_error = None, sp_stdout = ''Total free bytes : 107,374,182,400''\<rparr>),
      ffmpeg = (\<lambda>n inputPath outputPath. ChildClose 1 None),
      ffmpeg_info = (\<lambda>inputPath. InfoNoMatch), review_locked = False\<rparr>"

text \<open>Two small matching files, the later one first in the directory, and a file that
  does not match.\<close>

definition small_entries :: "fsnode list" where
  "small_entries =
     [FileNode ''x.flv'' (plain_file 10 30), FileNode ''notes.txt'' (plain_file 5 20),
      FileNode ''y.TS'' (plain_file 20 10)]"

text \<open>A 40 GB file in a subdirectory, then a second 40 GB file that does not fit any
  more, then a one-byte file in a sibling directory and one in the top directory.\<close>

definition big_entries :: "fsnode list" where
  "big_entries =
     [DirNode ''a'' [FileNode ''x.flv'' (plain_file (40 * GB) 30),
                     FileNode ''y.ts'' (plain_file (40 * GB) 10)],
      DirNode ''b'' [FileNode ''z.ts'' (plain_file 1 5)],
      FileNode ''w.flv'' (plain_file 1 7)]"

definition task_of :: "path \<Rightarrow> fileinfo \<Rightarrow> filetask" where
  "task_of p f = \<lparr>fullPath = p, tsize = st_size f, mtime = st_mtime f, atime = st_atime f\<rparr>"

text \<open>A probe document that passes the five checks of both validators, with the
  given \<open>format.size\<close>; two source files; and worlds that hold them, in which every
  transcoder run ends with the given event.\<close>


definition probe_doc :: "string \<Rightarrow> jsval" where
  "probe_doc sz =
     JObj [(''streams'',
            JArr [JObj [(''index'', JNum 0), (''codec_name'', JStr ''h264''),
                        (''codec_type'', JStr ''video''), (''codec_tag_string'', JStr ''avc1'')],
                  JObj [(''index'', JNum 1), (''codec_name'', JStr ''aac''),
                        (''codec_type'', JStr ''audio''), (''codec_tag_string'', JStr ''mp4a'')]]),
           (''format'',
            JObj [(''nb_streams'', JNum 2), (''format_name'', JStr ''mov,mp4,m4a,3gp,3g2,mj2''),
                  (''duration'', JStr ''300.000000''), (''size'', JStr sz)])]"

definition two_clips :: "fsnode list" where
  "two_clips =
     [FileNode ''clip.flv'' (plain_file 1000 5), FileNode ''next.flv'' (plain_file 2000 6)]"

definition clip_path :: path where
  "clip_path = path_join TARGET_DIR ''clip.flv''"

definition clip_task :: filetask where
  "clip_task = task_of clip_path (plain_file 1000 5)"

definition next_task :: filetask where
  "next_task = task_of (path_join TARGET_DIR ''next.flv'') (plain_file 2000 6)"

definition transcoding :: "child_event \<Rightarrow> world" where
  "transcoding ev =
     (world_of (tree_at TARGET_DIR two_clips))\<lparr>ffmpeg := (\<lambda>n inputPath outputPath. ev)\<rparr>"

text \<open>Worlds for the free-space query: one that is not Windows, one where \<open>fsutil\<close>
  cannot be started.\<close>

definition linux_world :: world where
  "linux_world = (world_of (tree_at TARGET_DIR two_clips))\<lparr>platform := ''linux''\<rparr>"

definition no_fsutil_world :: world where
  "no_fsutil_world =
     (world_of (tree_at TARGET_DIR two_clips))
       \<lparr>fsutil := (\<lambda>volume. \<lparr>sp_error = Some ''ENOENT'', sp_stdout = []\<rparr>)\<rparr>"

text \<open>A world where \<open>fsutil\<close> runs and prints no number.\<close>

definition no_number_world :: world where
  "no_number_world =
     (world_of (tree_at TARGET_DIR two_clips))
       \<lparr>fsutil := (\<lambda>volume. \<lparr>sp_error = None, sp_stdout = ''Access is denied.''\<rparr>)\<rparr>"

text \<open>Two sources with the same basename in two directories, and a tree in which the
  output of that basename is already in place.\<close>

definition same_name_entries :: "fsnode list" where
  "same_name_entries =
     [DirNode ''a'' [FileNode ''clip.flv'' (plain_file 1000 5)],
      DirNode ''b'' [FileNode ''clip.flv'' (plain_file 2000 6)]]"

definition a_clip :: filetask where
  "a_clip = task_of (path_join (path_join TARGET_DIR ''a'') ''clip.flv'') (plain_file 1000 5)"

definition b_clip :: filetask where
  "b_clip = task_of (path_join (path_join TARGET_DIR ''b'') ''clip.flv'') (plain_file 2000 6)"

definition converted_tree :: "fsnode list" where
  "converted_tree =
     tree_at BASE_DIR [DirNode (last TARGET_DIR) same_name_entries,
                       FileNode ''clip.mp4'' (plain_file 900 5)]"






section \<open>Properties of the file system\<close>

lemma find_node_simps [simp]:
  "find_node [] c = None"
  "find_node (n # ns) c = (if node_name n = c then Some n else find_node ns c)"
  by (simp_all add: find_node_def)

lemma find_node_name: "find_node ns c = Some n \<Longrightarrow> node_name n = c"
  by (induction ns) (auto simp: find_node_def split: if_splits)

lemma find_node_filter_other:
  "c' \<noteq> c \<Longrightarrow> find_node (filter (\<lambda>n. node_name n \<noteq> c) ns) c' = find_node ns c'"
  by (induction ns) (auto simp: find_node_def)

lemma find_node_filter_same: "find_node (filter (\<lambda>n. node_name n \<noteq> c) ns) c = None"
  by (induction ns) (auto simp: find_node_def)

lemma find_node_map:
  "(\<And>n. node_name (g n) = node_name n) \<Longrightarrow> find_node (map g ns) c = map_option g (find_node ns c)"
  by (induction ns) (auto simp: find_node_def)

lemma find_node_append:
  "find_node (ns @ ms) c = (case find_node ns c of None \<Rightarrow> find_node ms c | Some n \<Rightarrow> Some n)"
  by (induction ns) (auto simp: find_node_def)

lemma in_dir_name [simp]: "node_name (in_dir c h n) = node_name n"
  by (cases n) (auto simp: in_dir_def)

lemma in_dir_info [simp]: "node_info (in_dir c h n) = node_info n"
  by (cases n) (auto simp: in_dir_def)

lemma remove_file_deep: "remove_file ns (c # d # cs) = map (in_dir c (\<lambda>kids. remove_file kids (d # cs))) ns"
  by (simp add: in_dir_def)

lemma write_file_deep: "write_file ns (c # d # cs) f = map (in_dir c (\<lambda>kids. write_file kids (d # cs) f)) ns"
  by (simp add: in_dir_def)

lemma set_times_deep: "set_times ns (c # d # cs) a m = map (in_dir c (\<lambda>kids. set_times kids (d # cs) a m)) ns"
  by (simp add: in_dir_def)

lemma lookup_in_dir:
  "lookup (map (in_dir c h) ns) (c' # d # ds) =
     (case find_node ns c' of
        Some (DirNode m kids) \<Rightarrow> lookup (if c' = c then h kids else kids) (d # ds)
      | _ \<Rightarrow> None)"
  by (auto simp: find_node_map in_dir_def dest: find_node_name split: option.splits fsnode.splits)

lemma peek_in_dir_top: "peek (map (in_dir c h) ns) [c'] = peek ns [c']"
  by (cases "find_node ns c'") (simp_all add: peek_def find_node_map)

lemma peek_remove_other:
  "lookup tree p = Some (FileNode m f) \<Longrightarrow> q \<noteq> p \<Longrightarrow> peek (remove_file tree p) q = peek tree q"
proof (induction tree p arbitrary: q rule: lookup.induct)
  case (1 ns)
  then show ?case by simp
next
  case (2 ns c)
  then have top: "find_node ns c = Some (FileNode m f)" by simp
  show ?case
  proof (cases q)
    case Nil
    then show ?thesis by (simp add: peek_def)
  next
    case (Cons c' ds)
    show ?thesis
    proof (cases "c' = c")
      case True
      with Cons 2 obtain d es where "ds = d # es" by (cases ds) auto
      then show ?thesis
        using Cons True top by (simp add: peek_def find_node_filter_same)
    next
      case False
      then show ?thesis
        using Cons by (cases ds) (simp_all add: peek_def find_node_filter_other)
    qed
  qed
next
  case (3 ns c d cs)
  from 3(2) obtain k kids where top: "find_node ns c = Some (DirNode k kids)"
    and deep: "lookup kids (d # cs) = Some (FileNode m f)"
    by (auto split: option.splits fsnode.splits)
  show ?case
  proof (cases q)
    case Nil
    then show ?thesis by (simp add: peek_def)
  next
    case qc: (Cons c' ds)
    show ?thesis
    proof (cases ds)
      case Nil
      then show ?thesis
        using qc by (simp only: remove_file_deep peek_in_dir_top)
    next
      case (Cons d' es)
      show ?thesis
      proof (cases "c' = c")
        case True
        have "d' # es \<noteq> d # cs"
          using 3(3) qc Cons True by simp
        then have "peek (remove_file kids (d # cs)) (d' # es) = peek kids (d' # es)"
          using 3(1) [OF top refl deep] by simp
        then show ?thesis
          unfolding qc Cons remove_file_deep peek_def lookup_in_dir
          using True top by simp
      next
        case False
        show ?thesis
          unfolding qc Cons remove_file_deep peek_def lookup_in_dir
          using False by (auto split: option.splits fsnode.splits)
      qed
    qed
  qed
qed


lemma lookup_remove_same:
  "lookup tree p = Some (FileNode m f) \<Longrightarrow> lookup (remove_file tree p) p = None"
proof (induction tree p rule: lookup.induct)
  case (1 ns)
  then show ?case by simp
next
  case (2 ns c)
  then show ?case by (simp add: find_node_filter_same)
next
  case (3 ns c d cs)
  from 3(2) obtain k kids where top: "find_node ns c = Some (DirNode k kids)"
    and deep: "lookup kids (d # cs) = Some (FileNode m f)"
    by (auto split: option.splits fsnode.splits)
  have "lookup (remove_file kids (d # cs)) (d # cs) = None"
    using 3(1) [OF top refl deep] .
  then show ?case
    unfolding remove_file_deep lookup_in_dir using top by simp
qed

lemma peek_write_other:
  "lookup tree p = None \<Longrightarrow> q \<noteq> p \<Longrightarrow> peek (write_file tree p f) q = peek tree q"
proof (induction tree p arbitrary: q rule: lookup.induct)
  case (1 ns)
  then show ?case by simp
next
  case (2 ns c)
  then have top: "find_node ns c = None" by simp
  show ?case
  proof (cases q)
    case Nil
    then show ?thesis by (simp add: peek_def)
  next
    case (Cons c' ds)
    show ?thesis
    proof (cases "c' = c")
      case True
      with Cons 2 obtain d es where "ds = d # es" by (cases ds) auto
      then show ?thesis
        using Cons True top by (simp add: peek_def find_node_append)
    next
      case False
      have "find_node [FileNode c f] c' = None"
        using False by (simp add: find_node_def)
      then show ?thesis
        using Cons top by (cases ds) (simp_all add: peek_def find_node_append split: option.splits)
    qed
  qed
next
  case (3 ns c d cs)
  show ?case
  proof (cases q)
    case Nil
    then show ?thesis by (simp add: peek_def)
  next
    case qc: (Cons c' ds)
    show ?thesis
    proof (cases ds)
      case Nil
      then show ?thesis
        using qc by (simp only: write_file_deep peek_in_dir_top)
    next
      case (Cons d' es)
      show ?thesis
      proof (cases "\<exists>k kids. c' = c \<and> find_node ns c = Some (DirNode k kids)")
        case True
        then obtain k kids where eq: "c' = c" and top: "find_node ns c = Some (DirNode k kids)"
          by blast
        have deep: "lookup kids (d # cs) = None"
          using 3(2) top by simp
        have "d' # es \<noteq> d # cs"
          using 3(3) qc Cons eq by simp
        then have "peek (write_file kids (d # cs) f) (d' # es) = peek kids (d' # es)"
          using 3(1) [OF top refl deep] by simp
        then show ?thesis
          unfolding qc Cons write_file_deep peek_def lookup_in_dir
          using eq top by simp
      next
        case False
        show ?thesis
          unfolding qc Cons write_file_deep peek_def lookup_in_dir
          using False by (auto split: option.splits fsnode.splits)
      qed
    qed
  qed
qed

lemma lookup_write_same:
  "lookup tree p = None \<Longrightarrow>
   lookup (write_file tree p f) p = None \<or> lookup (write_file tree p f) p = Some (FileNode (last p) f)"
proof (induction tree p rule: lookup.induct)
  case (1 ns)
  then show ?case by simp
next
  case (2 ns c)
  then show ?case by (simp add: find_node_append)
next
  case (3 ns c d cs)
  show ?case
  proof (cases "find_node ns c")
    case None
    then show ?thesis
      unfolding write_file_deep lookup_in_dir by simp
  next
    case (Some n)
    show ?thesis
    proof (cases n)
      case (FileNode k g)
      then show ?thesis
        unfolding write_file_deep lookup_in_dir using Some by simp
    next
      case (DirNode k kids)
      have deep: "lookup kids (d # cs) = None"
        using 3(2) Some DirNode by simp
      show ?thesis
        using 3(1) [OF Some DirNode deep]
        unfolding write_file_deep lookup_in_dir using Some DirNode by simp
    qed
  qed
qed

lemma set_node_times_name [simp]: "node_name (set_node_times c a m n) = node_name n"
  by (cases n) (auto simp: set_node_times_def)

lemma set_times_top: "set_times ns [c] a m = map (set_node_times c a m) ns"
  by (simp add: set_node_times_def)

lemma lookup_set_times_None:
  "(lookup (set_times tree p a m) q = None) = (lookup tree q = None)"
proof (induction tree p arbitrary: q rule: lookup.induct)
  case (1 ns)
  then show ?case by simp
next
  case (2 ns c)
  show ?case
  proof (cases q)
    case Nil
    then show ?thesis by simp
  next
    case (Cons c' ds)
    then show ?thesis
      unfolding set_times_top
      by (cases ds; cases "find_node ns c'")
         (auto simp: find_node_map set_node_times_def split: fsnode.splits)
  qed
next
  case (3 ns c d cs)
  show ?case
  proof (cases q)
    case Nil
    then show ?thesis by simp
  next
    case qc: (Cons c' ds)
    show ?thesis
    proof (cases ds)
      case Nil
      then show ?thesis
        unfolding qc set_times_deep by (simp add: find_node_map)
    next
      case (Cons d' es)
      show ?thesis
      proof (cases "\<exists>k kids. c' = c \<and> find_node ns c = Some (DirNode k kids)")
        case True
        then obtain k kids where eq: "c' = c" and top: "find_node ns c = Some (DirNode k kids)"
          by blast
        show ?thesis
          using 3(1) [OF top refl, of "d' # es"]
          unfolding qc Cons set_times_deep lookup_in_dir
          using eq top by simp
      next
        case False
        show ?thesis
          unfolding qc Cons set_times_deep lookup_in_dir
          using False by (auto split: option.splits fsnode.splits)
      qed
    qed
  qed
qed

lemma lookup_prefix:
  "lookup tree (p @ [c]) \<noteq> None \<Longrightarrow> p \<noteq> [] \<Longrightarrow> lookup tree p \<noteq> None"
proof (induction tree p rule: lookup.induct)
  case (1 ns)
  then show ?case by simp
next
  case (2 ns c0)
  then show ?case by (auto split: option.splits fsnode.splits)
next
  case (3 ns c0 d cs)
  then show ?case by (auto split: option.splits fsnode.splits)
qed

lemma lookup_prefix_dir:
  "lookup tree (p @ [c]) \<noteq> None \<Longrightarrow> p \<noteq> [] \<Longrightarrow> is_dir tree p"
proof (induction tree p rule: lookup.induct)
  case (1 ns)
  then show ?case by simp
next
  case (2 ns c0)
  then show ?case by (auto simp: is_dir_def split: option.splits fsnode.splits)
next
  case (3 ns c0 d cs)
  then show ?case by (auto simp: is_dir_def split: option.splits fsnode.splits)
qed

lemma base_dir_of_target: "existsSync tree TARGET_DIR \<Longrightarrow> is_dir tree BASE_DIR"
  unfolding existsSync_def TARGET_DIR_def path_join_def
  by (rule lookup_prefix_dir) (simp_all add: BASE_DIR_def)


lemma target_exists_output_exists:
  "existsSync tree TARGET_DIR \<Longrightarrow> existsSync tree OUTPUT_DIR"
  unfolding existsSync_def TARGET_DIR_def OUTPUT_DIR_def path_join_def
  by (rule lookup_prefix) (simp_all add: BASE_DIR_def)


section \<open>Properties of collectFiles\<close>

lemma total_size_simps [simp]:
  "total_size [] = 0"
  "total_size (x # xs) = tsize x + total_size xs"
  "total_size (xs @ ys) = total_size xs + total_size ys"
  by (simp_all add: total_size_def)

lemma accept_append:
  "accept_until_full running (xs @ ys) =
     (if accept_until_full running xs = xs
      then xs @ accept_until_full (running + total_size xs) ys
      else accept_until_full running xs)"
proof (induction xs arbitrary: running)
  case Nil
  then show ?case by simp
next
  case (Cons x xs)
  show ?case
  proof (cases "running + tsize x > MAX_BATCH_SIZE_BYTES")
    case True
    then show ?thesis by simp
  next
    case False
    have "running + tsize x + total_size xs = running + total_size (x # xs)"
      by simp
    then show ?thesis
      using False Cons.IH [of "running + tsize x"] by (simp add: add.assoc)
  qed
qed

lemma accept_length: "length (accept_until_full running cs) \<le> length cs"
  by (induction cs arbitrary: running) auto

lemma accept_neq_append:
  assumes "accept_until_full running xs \<noteq> xs"
  shows "accept_until_full running xs \<noteq> xs @ ys"
proof
  assume eq: "accept_until_full running xs = xs @ ys"
  have "length (accept_until_full running xs) \<le> length xs"
    by (rule accept_length)
  with eq have "ys = []" by simp
  with eq assms show False by simp
qed

lemma accept_total_le:
  "running \<le> MAX_BATCH_SIZE_BYTES \<Longrightarrow>
   running + total_size (accept_until_full running cs) \<le> MAX_BATCH_SIZE_BYTES"
proof (induction cs arbitrary: running)
  case Nil
  then show ?case by simp
next
  case (Cons c cs)
  show ?case
  proof (cases "running + tsize c > MAX_BATCH_SIZE_BYTES")
    case True
    then show ?thesis using Cons.prems by simp
  next
    case False
    then have "running + tsize c + total_size (accept_until_full (running + tsize c) cs)
                 \<le> MAX_BATCH_SIZE_BYTES"
      using Cons.IH [of "running + tsize c"] by simp
    then show ?thesis using False by simp
  qed
qed

lemma accept_all:
  "running + total_size cs \<le> MAX_BATCH_SIZE_BYTES \<Longrightarrow> accept_until_full running cs = cs"
proof (induction cs arbitrary: running)
  case Nil
  then show ?case by simp
next
  case (Cons c cs)
  then have "running + tsize c + total_size cs \<le> MAX_BATCH_SIZE_BYTES"
    by simp
  then have "accept_until_full (running + tsize c) cs = cs"
    by (rule Cons.IH)
  moreover have "\<not> running + tsize c > MAX_BATCH_SIZE_BYTES"
    using Cons.prems by simp
  ultimately show ?case by simp
qed

text \<open>The recursive \<open>walk\<close> with its stop signal computes the accepted prefix of the
  candidates of the whole subtree.\<close>

lemma walk_refines:
  "walk currentDir files st =
     (accept_until_full (snd st) (candidates currentDir files) \<noteq> candidates currentDir files,
      fst st @ accept_until_full (snd st) (candidates currentDir files),
      snd st + total_size (accept_until_full (snd st) (candidates currentDir files)))"
proof (induction currentDir files st rule: walk.induct)
  case (1 currentDir st)
  then show ?case by simp
next
  case (2 currentDir name kids files st)
  let ?k = "candidates (path_join currentDir name) kids"
  let ?a = "accept_until_full (snd st) ?k"
  have inner: "walk (path_join currentDir name) kids st =
                 (?a \<noteq> ?k, fst st @ ?a, snd st + total_size ?a)"
    by (rule 2)
  show ?case
  proof (cases "?a = ?k")
    case True
    let ?st' = "(fst st @ ?k, snd st + total_size ?k)"
    have "walk currentDir files ?st' =
            (accept_until_full (snd ?st') (candidates currentDir files) \<noteq> candidates currentDir files,
             fst ?st' @ accept_until_full (snd ?st') (candidates currentDir files),
             snd ?st' + total_size (accept_until_full (snd ?st') (candidates currentDir files)))"
      using inner True by (intro 2(2) [of False ?st']) simp_all
    then show ?thesis
      using inner True by (simp add: accept_append add.assoc)
  next
    case False
    then show ?thesis
      using inner by (simp add: accept_append accept_neq_append)
  qed
next
  case (3 currentDir name stat files fileList totalSize)
  then show ?case by (simp add: add.assoc)
qed

lemma total_size_insort: "total_size (insort_key k x xs) = tsize x + total_size xs"
  by (induction xs) auto

lemma total_size_sort_key: "total_size (sort_key k xs) = total_size xs"
  by (induction xs) (auto simp: total_size_insort)

lemma collectFiles_batch:
  "lookup (fs w) dir = Some (DirNode m kids) \<Longrightarrow>
   collectFiles dir w =
     Inr (sort_key mtime (accept_until_full 0 (candidates dir kids)),
          writeLog Newline INFO
            (writeLog (BatchSummary (length (accept_until_full 0 (candidates dir kids)))
                         (total_size (accept_until_full 0 (candidates dir kids)))) INFO w))"
  by (simp add: collectFiles_def walk_refines)

text \<open>
  Claim C4.  Whatever the tree, a batch that \<open>collectFiles\<close> returns has a total size of
  at most \<open>MAX_BATCH_SIZE_BYTES\<close> and is sorted by non-decreasing \<open>mtime\<close>.
\<close>

theorem collectFiles_bounded_sorted:
  assumes "collectFiles dir w = Inr (batch, w')"
  shows "total_size batch \<le> MAX_BATCH_SIZE_BYTES \<and> sorted (map mtime batch)"
proof -
  from assms obtain m kids where
    b: "batch = sort_key mtime (accept_until_full 0 (candidates dir kids))"
    by (auto simp: collectFiles_def walk_refines split: option.splits fsnode.splits prod.splits)
  have "total_size batch \<le> MAX_BATCH_SIZE_BYTES"
    using accept_total_le [of 0 "candidates dir kids"] by (simp add: b total_size_sort_key)
  moreover have "sorted (map mtime batch)"
    by (simp add: b)
  ultimately show ?thesis by simp
qed

lemma candidates_small_entries:
  "candidates d small_entries =
     [task_of (path_join d ''x.flv'') (plain_file 10 30),
      task_of (path_join d ''y.TS'') (plain_file 20 10)]"
  by (simp add: small_entries_def extname_def toLowerCase_def lower_char_def
      extensionsToConvert_def task_of_def)

lemma lookup_target_example:
  "lookup (fs (world_of (tree_at TARGET_DIR entries))) TARGET_DIR =
     Some (DirNode (last TARGET_DIR) entries)"
  by (simp add: TARGET_DIR_def BASE_DIR_def path_join_def find_node_def world_of_def)

theorem collectFiles_bounded_sorted_witness:
  "collectFiles TARGET_DIR (world_of (tree_at TARGET_DIR small_entries)) =
     Inr ([task_of (path_join TARGET_DIR ''y.TS'') (plain_file 20 10),
           task_of (path_join TARGET_DIR ''x.flv'') (plain_file 10 30)],
          writeLog Newline INFO
            (writeLog (BatchSummary 2 30) INFO (world_of (tree_at TARGET_DIR small_entries))))
   \<and> total_size [task_of (path_join TARGET_DIR ''y.TS'') (plain_file 20 10),
                  task_of (path_join TARGET_DIR ''x.flv'') (plain_file 10 30)]
       \<le> MAX_BATCH_SIZE_BYTES
   \<and> sorted (map mtime [task_of (path_join TARGET_DIR ''y.TS'') (plain_file 20 10),
                         task_of (path_join TARGET_DIR ''x.flv'') (plain_file 10 30)])"
proof -
  have run: "collectFiles TARGET_DIR (world_of (tree_at TARGET_DIR small_entries)) =
     Inr ([task_of (path_join TARGET_DIR ''y.TS'') (plain_file 20 10),
           task_of (path_join TARGET_DIR ''x.flv'') (plain_file 10 30)],
          writeLog Newline INFO
            (writeLog (BatchSummary 2 30) INFO (world_of (tree_at TARGET_DIR small_entries))))"
    by (simp add: collectFiles_batch [OF lookup_target_example] candidates_small_entries
        MAX_BATCH_SIZE_BYTES_def task_of_def plain_file_def numeral_2_eq_2)
  show ?thesis
    using collectFiles_bounded_sorted [OF run] run by simp
qed

text \<open>
  Claim C5.  When the traversal meets a matching file \<open>c\<close> that does not fit on top of
  the files \<open>pre\<close> accepted before it, it stops for good: the batch is \<open>pre\<close>, sorted,
  whatever matching files \<open>post\<close> the rest of the directory, its sibling directories
  and their descendants still hold, however small.  (Sizes are natural numbers, so all
  of \<open>pre\<close> was accepted exactly when its total fits.)
\<close>

theorem collectFiles_halts_globally:
  assumes "lookup (fs w) dir = Some (DirNode m kids)"
    and "candidates dir kids = pre @ c # post"
    and "total_size pre \<le> MAX_BATCH_SIZE_BYTES"
    and "total_size pre + tsize c > MAX_BATCH_SIZE_BYTES"
  shows "\<exists>w'. collectFiles dir w = Inr (sort_key mtime pre, w')"
proof -
  have "accept_until_full 0 pre = pre"
    using assms(3) by (simp add: accept_all)
  then have "accept_until_full 0 (candidates dir kids) = pre"
    using assms(2,4) by (simp add: accept_append)
  then show ?thesis
    using assms(1) by (simp add: collectFiles_batch)
qed

lemma candidates_big_entries:
  "candidates d big_entries =
     [task_of (path_join (path_join d ''a'') ''x.flv'') (plain_file (40 * GB) 30)] @
     task_of (path_join (path_join d ''a'') ''y.ts'') (plain_file (40 * GB) 10) #
     [task_of (path_join (path_join d ''b'') ''z.ts'') (plain_file 1 5),
      task_of (path_join d ''w.flv'') (plain_file 1 7)]"
  by (simp add: big_entries_def extname_def toLowerCase_def lower_char_def
      extensionsToConvert_def task_of_def)

theorem collectFiles_halts_globally_witness:
  "\<exists>w'. collectFiles TARGET_DIR (world_of (tree_at TARGET_DIR big_entries)) =
     Inr ([task_of (path_join (path_join TARGET_DIR ''a'') ''x.flv'') (plain_file (40 * GB) 30)], w')"
proof -
  have fits: "total_size [task_of (path_join (path_join TARGET_DIR ''a'') ''x.flv'')
                            (plain_file (40 * GB) 30)] \<le> MAX_BATCH_SIZE_BYTES"
    by (simp add: task_of_def plain_file_def GB_def MAX_BATCH_SIZE_BYTES_def)
  have over: "total_size [task_of (path_join (path_join TARGET_DIR ''a'') ''x.flv'')
                            (plain_file (40 * GB) 30)]
                + tsize (task_of (path_join (path_join TARGET_DIR ''a'') ''y.ts'')
                            (plain_file (40 * GB) 10)) > MAX_BATCH_SIZE_BYTES"
    by (simp add: task_of_def plain_file_def GB_def MAX_BATCH_SIZE_BYTES_def)
  show ?thesis
    using collectFiles_halts_globally
            [OF lookup_target_example candidates_big_entries fits over]
    by simp
qed

section \<open>Properties of the worker and of main\<close>



lemma writeLog_fields [simp]:
  "fs (writeLog msg lv w) = fs w"
  "review (writeLog msg lv w) = review w"
  "spawned (writeLog msg lv w) = spawned w"
  "ffmpeg (writeLog msg lv w) = ffmpeg w"
  "platform (writeLog msg lv w) = platform w"
  "fsutil (writeLog msg lv w) = fsutil w"
  by (simp_all add: writeLog_def)


lemma writeLog_v_fields [simp]:
  "fs (writeLog_v msg lv w) = fs w"
  "review (writeLog_v msg lv w) = review w"
  "spawned (writeLog_v msg lv w) = spawned w"
  "ffmpeg (writeLog_v msg lv w) = ffmpeg w"
  by (simp_all add: writeLog_v_def)

lemma validated_writeLog [simp]:
  "validated_in_log (writeLog msg lv w) out =
     (validated_in_log w out \<or> (lv = INFO \<and> msg = ValidationPassed out))"
  by (auto simp: validated_in_log_def writeLog_def)

lemma started_writeLog [simp]:
  "started_in_log (writeLog msg lv w) i out =
     (started_in_log w i out \<or> (lv = INFO \<and> msg = ConvertStart i out))"
  by (auto simp: started_in_log_def writeLog_def)

lemma started_fs_update [simp]:
  "started_in_log (w\<lparr>fs := tree\<rparr>) i out = started_in_log w i out"
  "started_in_log (w\<lparr>review := r\<rparr>) i out = started_in_log w i out"
  "started_in_log (w\<lparr>spawned := sp\<rparr>) i out = started_in_log w i out"
  by (simp_all add: started_in_log_def)

lemma validated_fs_update [simp]:
  "validated_in_log (w\<lparr>fs := tree\<rparr>) out = validated_in_log w out"
  "validated_in_log (w\<lparr>review := r\<rparr>) out = validated_in_log w out"
  "validated_in_log (w\<lparr>spawned := sp\<rparr>) out = validated_in_log w out"
  by (simp_all add: validated_in_log_def)

lemma unlinkSync_other:
  "unlinkSync p tree = Inr tree' \<Longrightarrow> q \<noteq> p \<Longrightarrow> peek tree' q = peek tree q"
  by (auto simp: unlinkSync_def peek_remove_other split: option.splits fsnode.splits if_splits)

lemma unlinkSync_same:
  "unlinkSync p tree = Inr tree' \<Longrightarrow> \<not> existsSync tree' p"
  by (auto simp: unlinkSync_def existsSync_def lookup_remove_same
      split: option.splits fsnode.splits if_splits)

lemma utimesSync_exists:
  "utimesSync p a m tree = Inr tree' \<Longrightarrow> existsSync tree' q = existsSync tree q"
  by (auto simp: utimesSync_def existsSync_def lookup_set_times_None simp del: not_None_eq
      split: option.splits fsnode.splits if_splits)


lemma delete_source_fields [simp]:
  "review (delete_source writeLog p w) = review w"
  "spawned (delete_source writeLog p w) = spawned w"
  "validated_in_log (delete_source writeLog p w) out = validated_in_log w out"
  by (simp_all add: delete_source_def split: sum.splits)



lemma copy_timestamps_fields [simp]:
  "review (copy_timestamps writeLog p a m w) = review w"
  "spawned (copy_timestamps writeLog p a m w) = spawned w"
  "validated_in_log (copy_timestamps writeLog p a m w) out = validated_in_log w out"
  "existsSync (fs (copy_timestamps writeLog p a m w)) q = existsSync (fs w) q"
  by (auto simp: copy_timestamps_def dest: utimesSync_exists split: sum.splits)

lemma delete_invalid_output_fields [simp]:
  "review (delete_invalid_output writeLog p w) = review w"
  "spawned (delete_invalid_output writeLog p w) = spawned w"
  "validated_in_log (delete_invalid_output writeLog p w) out = validated_in_log w out"
  by (simp_all add: delete_invalid_output_def split: sum.splits)



lemma record_for_review_final [simp]:
  "fs (final (record_for_review writeLog nl p v w)) = fs w"
  "spawned (final (record_for_review writeLog nl p v w)) = spawned w"
  "validated_in_log (final (record_for_review writeLog nl p v w)) out = validated_in_log w out"
  by (simp_all add: record_for_review_def split: option.splits)

lemma runFfprobeJson_fields [simp]:
  "fs (snd (runFfprobeJson writeLog p w)) = fs w"
  "review (snd (runFfprobeJson writeLog p w)) = review w"
  "spawned (snd (runFfprobeJson writeLog p w)) = spawned w"
  "validated_in_log (snd (runFfprobeJson writeLog p w)) out = validated_in_log w out"
  by (simp_all add: runFfprobeJson_def split: option.splits fsnode.splits)




lemma spawn_ffmpeg_fields [simp]:
  "spawned (snd (spawn_ffmpeg i out w)) = spawned w @ [i]"
  "review (snd (spawn_ffmpeg i out w)) = review w"
  "validated_in_log (snd (spawn_ffmpeg i out w)) q = validated_in_log w q"
  by (simp_all add: spawn_ffmpeg_def Let_def split: child_event.splits option.splits)



lemma record_for_review_Inl:
  "record_for_review lg nl p v w = Inl (e, w') \<Longrightarrow> w' = w \<and> e = TypeError \<and> reasons v = None"
  by (auto simp: record_for_review_def split: option.splits)

lemma record_for_review_Inr:
  "record_for_review writeLog nl p v w = Inr w' \<Longrightarrow>
     fs w' = fs w \<and> spawned w' = spawned w \<and> (\<forall>out. validated_in_log w' out = validated_in_log w out)"
  by (auto simp: record_for_review_def split: option.splits)


lemma on_close_spawned [simp]: "spawned (final (on_close t out code w)) = spawned w"
  by (auto simp: on_close_def Let_def split_beta
      dest!: record_for_review_Inl record_for_review_Inr split: sum.splits)




lemma convertFlvToMp4_spawned:
  "spawned (final (convertFlvToMp4 t w)) =
     (if existsSync (fs w) (outputPath_of (fullPath t)) then spawned w
      else spawned w @ [fullPath t])"
proof (cases "existsSync (fs w) (outputPath_of (fullPath t))")
  case True
  then show ?thesis by (simp add: convertFlvToMp4_def Let_def)
next
  case False
  let ?s = "spawn_ffmpeg (fullPath t) (outputPath_of (fullPath t))
              (writeLog (ConvertStart (fullPath t) (outputPath_of (fullPath t))) INFO w)"
  have "spawned (snd ?s) = spawned w @ [fullPath t]" by simp
  then show ?thesis
    using False by (cases "fst ?s") (simp_all add: convertFlvToMp4_def Let_def split_beta)
qed






lemma final_Inr_eq: "r = Inr w' \<Longrightarrow> final r = w'"
  by simp






lemma same_run_refl [simp]: "same_run a a"
  by (simp add: same_run_def)







lemma not_validated_fresh [simp]:
  "\<not> validated_in_log (w\<lparr>logfile := [Header]\<rparr>) q"
  "\<not> started_in_log (w\<lparr>logfile := [Header]\<rparr>) i q"
  by (simp_all add: validated_in_log_def started_in_log_def)


lemma start_log_dir:
  "is_dir (fs w) BASE_DIR \<Longrightarrow> start_log w = Inr (w\<lparr>logfile := [Header]\<rparr>)"
  by (auto simp: start_log_def is_dir_def split: option.splits fsnode.splits)

lemma start_log_not_dir:
  "\<not> is_dir (fs w) BASE_DIR \<Longrightarrow> \<exists>e. start_log w = Inl (e, w)"
  by (auto simp: start_log_def is_dir_def split: option.splits fsnode.splits)

lemma remove_ledger_ok:
  assumes "review w = None \<or> \<not> review_locked w"
  shows "remove_ledger w = Inr (w\<lparr>review := None\<rparr>)"
proof (cases "review w")
  case None
  then have "w\<lparr>review := None\<rparr> = w\<lparr>review := review w\<rparr>" by simp
  also have "\<dots> = w" by simp
  finally show ?thesis using None by (simp add: remove_ledger_def)
next
  case (Some es)
  then show ?thesis using assms by (simp add: remove_ledger_def)
qed

lemma getAvailableDiskSpace_error:
  "platform w = ''win32'' \<Longrightarrow> sp_error (fsutil w (volume_of dir)) = Some err \<Longrightarrow>
   getAvailableDiskSpace dir w = Inr (Fin 0, writeLog (DiskSpaceError dir err) ERROR w)"
  by (simp add: getAvailableDiskSpace_def)

lemma getAvailableDiskSpace_no_number:
  "platform w = ''win32'' \<Longrightarrow> sp_error (fsutil w (volume_of dir)) = None \<Longrightarrow>
   match_digits_commas (sp_stdout (fsutil w (volume_of dir))) = None \<Longrightarrow>
   getAvailableDiskSpace dir w = Inr (Fin 0, w)"
  by (simp add: getAvailableDiskSpace_def)

lemma getAvailableDiskSpace_unsupported:
  "platform w \<noteq> ''win32'' \<Longrightarrow>
   getAvailableDiskSpace dir w = Inl (Error ''Unsupported platform'', w)"
  by (simp add: getAvailableDiskSpace_def)

lemma main_not_started:
  "\<not> is_dir (fs w0) BASE_DIR \<Longrightarrow> \<exists>e. main w0 = Inl (e, w0)"
  using start_log_not_dir [of w0] by (auto simp: main_def)

lemma main_no_target:
  assumes "is_dir (fs w0) BASE_DIR" and "\<not> existsSync (fs w0) TARGET_DIR"
  shows "main w0 = Inr (writeLog (TargetDirMissing TARGET_DIR) CRITICAL (w0\<lparr>logfile := [Header]\<rparr>))"
  using assms by (simp add: main_def start_log_dir)

lemma main_ledger_locked:
  assumes "existsSync (fs w0) TARGET_DIR" and "review w0 \<noteq> None" and "review_locked w0"
  shows "main w0 = Inl (SystemError ''EPERM'', w0\<lparr>logfile := [Header]\<rparr>)"
  using assms target_exists_output_exists [OF assms(1)]
  by (simp add: main_def start_log_dir [OF base_dir_of_target] remove_ledger_def)

lemma main_after_checks:
  assumes "existsSync (fs w0) TARGET_DIR" and "review w0 = None \<or> \<not> review_locked w0"
  shows "main w0 =
      (case getAvailableDiskSpace OUTPUT_DIR (w0\<lparr>logfile := [Header], review := None\<rparr>) of
         Inl e \<Rightarrow> Inl e
       | Inr (availableSpace, w2) \<Rightarrow>
           if js_lt availableSpace (Fin (of_nat SPACE_THRESHOLD))
           then Inr (writeLog (DiskSpaceLow OUTPUT_DIR) CRITICAL w2)
           else
             (case collectFiles TARGET_DIR w2 of
                Inl e \<Rightarrow> Inl e
              | Inr (filesToConvert, w3) \<Rightarrow>
                  (case convert_each filesToConvert w3 of
                     Inl e \<Rightarrow> Inl e
                   | Inr w4 \<Rightarrow> Inr (writeLog (TaskDone (length filesToConvert)) INFO w4))))"
proof -
  have "remove_ledger (w0\<lparr>logfile := [Header]\<rparr>) = Inr (w0\<lparr>logfile := [Header], review := None\<rparr>)"
    using assms(2) by (intro remove_ledger_ok) simp
  then show ?thesis
    using assms(1) target_exists_output_exists [OF assms(1)]
    by (simp add: main_def start_log_dir [OF base_dir_of_target])
qed


lemma main_spawns_nothing:
  assumes "\<And>w'. platform w' = platform w \<Longrightarrow> fsutil w' = fsutil w \<Longrightarrow>
             (\<exists>e. getAvailableDiskSpace OUTPUT_DIR w' = Inl (e, w')) \<or>
             (\<exists>w''. getAvailableDiskSpace OUTPUT_DIR w' = Inr (Fin 0, w'') \<and>
                    spawned w'' = spawned w')"
  shows "spawned (final (main w)) = spawned w"
proof (cases "is_dir (fs w) BASE_DIR")
  case False
  then show ?thesis using main_not_started [of w] by auto
next
  case dir: True
  show ?thesis
  proof (cases "existsSync (fs w) TARGET_DIR")
    case False
    then show ?thesis using dir by (simp add: main_no_target)
  next
    case True
    show ?thesis
    proof (cases "review w \<noteq> None \<and> review_locked w")
      case locked: True
      then show ?thesis using True by (simp add: main_ledger_locked)
    next
      case free: False
      let ?w2 = "w\<lparr>logfile := [Header], review := None\<rparr>"
      have m: "main w =
        (case getAvailableDiskSpace OUTPUT_DIR ?w2 of
           Inl e \<Rightarrow> Inl e
         | Inr (availableSpace, w2) \<Rightarrow>
             if js_lt availableSpace (Fin (of_nat SPACE_THRESHOLD))
             then Inr (writeLog (DiskSpaceLow OUTPUT_DIR) CRITICAL w2)
             else
               (case collectFiles TARGET_DIR w2 of
                  Inl e \<Rightarrow> Inl e
                | Inr (filesToConvert, w3) \<Rightarrow>
                    (case convert_each filesToConvert w3 of
                       Inl e \<Rightarrow> Inl e
                     | Inr w4 \<Rightarrow> Inr (writeLog (TaskDone (length filesToConvert)) INFO w4))))"
        using True free by (intro main_after_checks) auto
      from assms [of ?w2] show ?thesis
        unfolding m by (auto simp: SPACE_THRESHOLD_def)
    qed
  qed
qed



text \<open>
  Claim C7.  The free-space query fails in three ways.  On Windows, when \<open>fsutil\<close>
  cannot be run, and when it runs and prints no number, \<open>getAvailableDiskSpace\<close>
  returns 0, as its header comment says, and \<open>main\<close> starts no conversion: a run
  that gets as far as the query (the target directory exists and the old ledger,
  if there is one, can be unlinked) returns with the CRITICAL line in the log.  On
  any other platform \<open>getAvailableDiskSpace\<close> does not return 0: it throws
  \<open>Unsupported platform\<close>, and since \<open>main\<close> catches nothing, a run that gets as far
  as the query ends by that exception; no conversion is started there either.
\<close>

theorem disk_query_failure_outcomes:
  "(platform w = ''win32'' \<and>
    (sp_error (fsutil w (volume_of OUTPUT_DIR)) \<noteq> None \<or>
     match_digits_commas (sp_stdout (fsutil w (volume_of OUTPUT_DIR))) = None) \<longrightarrow>
      (\<exists>w'. getAvailableDiskSpace OUTPUT_DIR w = Inr (Fin 0, w')) \<and>
      spawned (final (main w)) = spawned w \<and>
      (existsSync (fs w) TARGET_DIR \<and> (review w = None \<or> \<not> review_locked w) \<longrightarrow>
         (\<exists>w'. main w = Inr w' \<and> Line CRITICAL (DiskSpaceLow OUTPUT_DIR) \<in> set (logfile w')))) \<and>
   (platform w \<noteq> ''win32'' \<longrightarrow>
      getAvailableDiskSpace OUTPUT_DIR w = Inl (Error ''Unsupported platform'', w) \<and>
      spawned (final (main w)) = spawned w \<and>
      (existsSync (fs w) TARGET_DIR \<and> (review w = None \<or> \<not> review_locked w) \<longrightarrow>
         main w = Inl (Error ''Unsupported platform'', w\<lparr>logfile := [Header], review := None\<rparr>)))"
proof (intro conjI impI)
  assume a: "platform w = ''win32'' \<and>
    (sp_error (fsutil w (volume_of OUTPUT_DIR)) \<noteq> None \<or>
     match_digits_commas (sp_stdout (fsutil w (volume_of OUTPUT_DIR))) = None)"
  have zero: "\<exists>w''. getAvailableDiskSpace OUTPUT_DIR w' = Inr (Fin 0, w'') \<and>
                 spawned w'' = spawned w'"
    if "platform w' = platform w" "fsutil w' = fsutil w" for w'
  proof (cases "sp_error (fsutil w (volume_of OUTPUT_DIR))")
    case None
    then show ?thesis
      using a that by (simp add: getAvailableDiskSpace_no_number)
  next
    case (Some err)
    then show ?thesis
      using a that by (simp add: getAvailableDiskSpace_error)
  qed
  show "\<exists>w'. getAvailableDiskSpace OUTPUT_DIR w = Inr (Fin 0, w')"
    using zero [of w] by auto
  show "spawned (final (main w)) = spawned w"
    using zero by (intro main_spawns_nothing) blast
  show "\<exists>w'. main w = Inr w' \<and> Line CRITICAL (DiskSpaceLow OUTPUT_DIR) \<in> set (logfile w')"
    if "existsSync (fs w) TARGET_DIR \<and> (review w = None \<or> \<not> review_locked w)"
  proof -
    let ?w2 = "w\<lparr>logfile := [Header], review := None\<rparr>"
    obtain w'' where "getAvailableDiskSpace OUTPUT_DIR ?w2 = Inr (Fin 0, w'')"
      using zero [of ?w2] by auto
    then show ?thesis
      using that by (simp add: main_after_checks SPACE_THRESHOLD_def writeLog_def)
  qed
next
  assume a: "platform w \<noteq> ''win32''"
  let ?w2 = "w\<lparr>logfile := [Header], review := None\<rparr>"
  show "getAvailableDiskSpace OUTPUT_DIR w = Inl (Error ''Unsupported platform'', w)"
    using a by (rule getAvailableDiskSpace_unsupported)
  show "spawned (final (main w)) = spawned w"
    using a by (intro main_spawns_nothing) (simp add: getAvailableDiskSpace_unsupported)
  have q: "getAvailableDiskSpace OUTPUT_DIR ?w2 = Inl (Error ''Unsupported platform'', ?w2)"
    using a by (intro getAvailableDiskSpace_unsupported) simp
  show "main w = Inl (Error ''Unsupported platform'', ?w2)"
    if "existsSync (fs w) TARGET_DIR \<and> (review w = None \<or> \<not> review_locked w)"
    using q that by (simp add: main_after_checks)
qed

lemma peek_file:
  "(peek tree p = Some (Some f)) = (\<exists>m. lookup tree p = Some (FileNode m f))"
proof (cases "lookup tree p")
  case None
  then show ?thesis by (simp add: peek_def)
next
  case (Some n)
  then show ?thesis by (cases n) (simp_all add: peek_def)
qed

lemma outputPath_of_last:
  "p1 \<noteq> [] \<Longrightarrow> p2 \<noteq> [] \<Longrightarrow> last p1 = last p2 \<Longrightarrow> outputPath_of p1 = outputPath_of p2"
  by (simp add: outputPath_of_def basename_def path_extname_def)

text \<open>
  Claim C10, as amended.  Two tasks with the same basename have the same output path.
  When that output is in place as the second task is processed, the worker takes the
  skip path: it returns normally, starts no transcoder, logs the skip, and unlinks
  the source; a source that is a file and accepts the unlink is gone afterwards,
  though no output was made from it.
\<close>

theorem same_basename_takes_skip_path:
  assumes "fullPath t1 \<noteq> []" and "fullPath t2 \<noteq> []"
    and "last (fullPath t1) = last (fullPath t2)"
    and "existsSync (fs w) (outputPath_of (fullPath t1))"
  shows "\<exists>w'. convertFlvToMp4 t2 w = Inr w' \<and> spawned w' = spawned w \<and>
              Line WARNING (SkipExists (outputPath_of (fullPath t1))) \<in> set (logfile w') \<and>
              (\<forall>f. peek (fs w) (fullPath t2) = Some (Some f) \<and> \<not> deny_unlink f
                     \<longrightarrow> \<not> existsSync (fs w') (fullPath t2))"
proof -
  have out: "outputPath_of (fullPath t2) = outputPath_of (fullPath t1)"
    using assms(1-3) by (intro outputPath_of_last) simp_all
  let ?w' = "writeLog Newline INFO
               (delete_source writeLog (fullPath t2)
                 (writeLog (SkipExists (outputPath_of (fullPath t1))) WARNING w))"
  have run: "convertFlvToMp4 t2 w = Inr ?w'"
    using assms(4) out by (simp add: convertFlvToMp4_def Let_def)
  have gone: "\<not> existsSync (fs ?w') (fullPath t2)"
    if "peek (fs w) (fullPath t2) = Some (Some f)" "\<not> deny_unlink f" for f
  proof -
    from that(1) obtain m where "lookup (fs w) (fullPath t2) = Some (FileNode m f)"
      by (auto simp: peek_file)
    then have "unlinkSync (fullPath t2) (fs w) = Inr (remove_file (fs w) (fullPath t2))"
      using that(2) by (simp add: unlinkSync_def)
    then show ?thesis
      using unlinkSync_same [of "fullPath t2" "fs w"]
      by (simp add: delete_source_def isDel_def)
  qed
  have "Line WARNING (SkipExists (outputPath_of (fullPath t1))) \<in> set (logfile ?w')"
    by (simp add: writeLog_def delete_source_def split: sum.splits)
  then show ?thesis using run gone by auto
qed

lemma spawn_ffmpeg_close:
  assumes "ffmpeg w (length (spawned w)) i out = ChildClose code written"
  shows "spawn_ffmpeg i out w =
           (ChildClose code written,
            w\<lparr>spawned := spawned w @ [i], fs := left_by_transcoder (fs w) out written\<rparr>)"
  using assms by (cases written) (simp_all add: spawn_ffmpeg_def left_by_transcoder_def)

lemma left_by_transcoder_other:
  "\<not> existsSync tree out \<Longrightarrow> q \<noteq> out \<Longrightarrow> peek (left_by_transcoder tree out written) q = peek tree q"
  by (cases written) (simp_all add: left_by_transcoder_def existsSync_def peek_write_other)

lemma left_by_transcoder_same:
  assumes "\<not> existsSync tree out" and "lookup (left_by_transcoder tree out written) out = Some n"
  shows "\<exists>f. written = Some f \<and> n = FileNode (last out) f"
proof (cases written)
  case None
  then show ?thesis using assms by (simp add: left_by_transcoder_def existsSync_def)
next
  case (Some f)
  then show ?thesis
    using assms lookup_write_same [of tree out f]
    by (auto simp: left_by_transcoder_def existsSync_def)
qed

text \<open>The cleanup of the two newer variants: unlink the output if it exists, log or
  ignore a failure.\<close>

lemma cleanup_unlink:
  fixes written :: "fileinfo option"
  assumes "\<not> existsSync tree out"
  defines "tree1 \<equiv> left_by_transcoder tree out written"
  shows "(case unlinkSync out tree1 of
            Inr tree2 \<Rightarrow> \<not> existsSync tree2 out \<and> (\<forall>q. q \<noteq> out \<longrightarrow> peek tree2 q = peek tree q)
          | Inl e \<Rightarrow> existsSync tree1 out \<longrightarrow> (\<exists>f. written = Some f \<and> deny_unlink f))"
proof (cases "unlinkSync out tree1")
  case (Inr tree2)
  then have "\<not> existsSync tree2 out" by (rule unlinkSync_same)
  moreover have "peek tree2 q = peek tree q" if "q \<noteq> out" for q
    using unlinkSync_other [OF Inr that] left_by_transcoder_other [OF assms(1) that]
    by (simp add: tree1_def)
  ultimately show ?thesis using Inr by simp
next
  case (Inl e)
  have "\<exists>f. written = Some f \<and> deny_unlink f" if "existsSync tree1 out"
  proof -
    from that obtain n where n: "lookup tree1 out = Some n" by (auto simp: existsSync_def)
    then obtain f where f: "written = Some f" "n = FileNode (last out) f"
      using left_by_transcoder_same [OF assms(1)] by (auto simp: tree1_def)
    then have "deny_unlink f"
      using Inl n by (auto simp: unlinkSync_def split: if_splits)
    then show ?thesis using f by simp
  qed
  then show ?thesis using Inl by simp
qed

lemma read_timestamps_exists:
  assumes "existsSync (fs w) p"
  shows "\<exists>stamps. read_timestamps p w = (Some stamps, w)"
proof -
  from assms obtain n where n: "lookup (fs w) p = Some n"
    by (auto simp: existsSync_def)
  show ?thesis
    by (cases n) (simp_all add: read_timestamps_def statSync_def n)
qed

lemma failure_space_aware:
  assumes "code \<noteq> 0" and "existsSync (fs w) (fullPath t)"
    and "\<not> existsSync (fs w) (outputPath_of (fullPath t))"
    and "ffmpeg w (length (spawned w)) (fullPath t) (outputPath_of (fullPath t)) = ChildClose code written"
  shows "\<exists>w'. convertFlvToMp4 t w = Inr w' \<and> failure_handled (fullPath t) code w w' \<and>
              (existsSync (fs w') (outputPath_of (fullPath t))
                 \<longrightarrow> (\<exists>f. written = Some f \<and> deny_unlink f))"
proof -
  let ?i = "fullPath t"
  let ?out = "outputPath_of ?i"
  let ?tree1 = "left_by_transcoder (fs w) ?out written"
  have ne: "?i \<noteq> ?out" using assms(2,3) by auto
  have src: "peek ?tree1 ?i = peek (fs w) ?i"
    using assms(3) ne by (rule left_by_transcoder_other)
  have sp: "spawn_ffmpeg ?i ?out (writeLog (ConvertStart ?i ?out) INFO w) =
              (ChildClose code written,
               (writeLog (ConvertStart ?i ?out) INFO w)
                 \<lparr>spawned := spawned w @ [?i], fs := ?tree1\<rparr>)"
    using assms(4) spawn_ffmpeg_close [of "writeLog (ConvertStart ?i ?out) INFO w" ?i ?out code written]
    by simp
  have run: "convertFlvToMp4 t w =
               on_close t ?out code
                 ((writeLog (ConvertStart ?i ?out) INFO w)\<lparr>spawned := spawned w @ [?i], fs := ?tree1\<rparr>)"
    using assms(3) by (simp add: convertFlvToMp4_def Let_def sp)
  show ?thesis
    unfolding run
    using cleanup_unlink [OF assms(3), of written] assms(1) src ne
    by (cases "unlinkSync ?out ?tree1")
       (auto simp: on_close_def Let_def failure_handled_def writeLog_def)
qed

lemma failure_validation_aware:
  assumes "code \<noteq> 0" and "existsSync (fs w) inputPath"
    and "\<not> existsSync (fs w) (outputPath_of inputPath)"
    and "ffmpeg w (length (spawned w)) inputPath (outputPath_of inputPath) = ChildClose code written"
  shows "\<exists>w'. convertFlvToMp4_v inputPath w = Inr w' \<and> failure_handled inputPath code w w' \<and>
              (existsSync (fs w') (outputPath_of inputPath)
                 \<longrightarrow> (\<exists>f. written = Some f \<and> deny_unlink f))"
proof -
  let ?i = "inputPath"
  let ?out = "outputPath_of ?i"
  let ?tree1 = "left_by_transcoder (fs w) ?out written"
  have ne: "?i \<noteq> ?out" using assms(2,3) by auto
  have src: "peek ?tree1 ?i = peek (fs w) ?i"
    using assms(3) ne by (rule left_by_transcoder_other)
  obtain stamps where rt: "read_timestamps ?i w = (Some stamps, w)"
    using read_timestamps_exists [OF assms(2)] by blast
  have sp: "spawn_ffmpeg ?i ?out (writeLog_v (ConvertStart ?i ?out) INFO w) =
              (ChildClose code written,
               (writeLog_v (ConvertStart ?i ?out) INFO w)
                 \<lparr>spawned := spawned w @ [?i], fs := ?tree1\<rparr>)"
    using assms(4) spawn_ffmpeg_close [of "writeLog_v (ConvertStart ?i ?out) INFO w" ?i ?out code written]
    by simp
  have run: "convertFlvToMp4_v ?i w =
               on_close_v ?i ?out (Some stamps) code
                 ((writeLog_v (ConvertStart ?i ?out) INFO w)\<lparr>spawned := spawned w @ [?i], fs := ?tree1\<rparr>)"
    using assms(3) by (simp add: convertFlvToMp4_v_def Let_def rt sp)
  show ?thesis
    unfolding run
    using cleanup_unlink [OF assms(3), of written] assms(1) src ne
    by (cases "unlinkSync ?out ?tree1")
       (auto simp: on_close_v_def Let_def failure_handled_def writeLog_v_def)
qed

lemma failure_convert_js:
  assumes "code \<noteq> 0" and "existsSync (fs w) inputPath"
    and "\<not> existsSync (fs w) (outputPath_js inputPath)"
    and "ffmpeg w (length (spawned w)) inputPath (outputPath_js inputPath) = ChildClose code written"
  shows "failure_handled inputPath code w (convertVideoStreamCopy inputPath w) \<and>
         fs (convertVideoStreamCopy inputPath w)
           = left_by_transcoder (fs w) (outputPath_js inputPath) written"
proof -
  let ?i = "inputPath"
  let ?out = "outputPath_js ?i"
  let ?tree1 = "left_by_transcoder (fs w) ?out written"
  have ne: "?i \<noteq> ?out" using assms(2,3) by auto
  have src: "peek ?tree1 ?i = peek (fs w) ?i"
    using assms(3) ne by (rule left_by_transcoder_other)
  obtain stamps where rt: "read_timestamps ?i w = (Some stamps, w)"
    using read_timestamps_exists [OF assms(2)] by blast
  obtain d w2 where gd: "getDuration ?i w = (d, w2)" by (cases "getDuration ?i w")
  then have w2: "fs w2 = fs w" "review w2 = review w" "spawned w2 = spawned w" "ffmpeg w2 = ffmpeg w"
    by (auto simp: getDuration_def split: duration_report.splits)
  let ?w4 = "if d = 0 then writeLog_v (NoProgressBar ?i) WARNING (w2\<lparr>totalDurationSeconds := d\<rparr>)
             else w2\<lparr>totalDurationSeconds := d\<rparr>"
  let ?w5 = "writeLog_v (ConvertStart ?i ?out) INFO ?w4"
  have w5: "fs ?w5 = fs w" "review ?w5 = review w" "spawned ?w5 = spawned w" "ffmpeg ?w5 = ffmpeg w"
    using w2 by simp_all
  have sp: "spawn_ffmpeg ?i ?out ?w5 =
              (ChildClose code written, ?w5\<lparr>spawned := spawned w @ [?i], fs := ?tree1\<rparr>)"
    using assms(4) spawn_ffmpeg_close [of ?w5 ?i ?out code written] w5 by simp
  have run: "convertVideoStreamCopy ?i w =
               writeLog_v (ConvertFailed ?i code) ERROR (?w5\<lparr>spawned := spawned w @ [?i], fs := ?tree1\<rparr>)"
    using assms(1,3) by (simp add: convertVideoStreamCopy_def on_close_js_def Let_def rt gd sp)
  show ?thesis
    unfolding run using src w5 by (simp add: failure_handled_def writeLog_v_def)
qed

text \<open>
  Claim C6, as amended.  The transcoder of an existing source exits with a code other
  than zero.  In the space-aware and the validation-aware variant the worker returns
  normally with the failure handled (ERROR in the log, ledger and source as they
  were), and the output path is empty afterwards unless the transcoder left a file
  there that refuses the unlink.  In \<open>src/convert.js\<close> the failure is handled in the
  same sense, but nothing is removed: the tree is as the transcoder left it.
\<close>

theorem transcoder_failure_handled:
  assumes "code \<noteq> 0" and "fullPath t = inputPath" and "existsSync (fs w) inputPath"
  shows
    "(\<not> existsSync (fs w) (outputPath_of inputPath) \<and>
      ffmpeg w (length (spawned w)) inputPath (outputPath_of inputPath) = ChildClose code written \<longrightarrow>
        (\<exists>w'. convertFlvToMp4 t w = Inr w' \<and> failure_handled inputPath code w w' \<and>
              (existsSync (fs w') (outputPath_of inputPath)
                 \<longrightarrow> (\<exists>f. written = Some f \<and> deny_unlink f))) \<and>
        (\<exists>w'. convertFlvToMp4_v inputPath w = Inr w' \<and> failure_handled inputPath code w w' \<and>
              (existsSync (fs w') (outputPath_of inputPath)
                 \<longrightarrow> (\<exists>f. written = Some f \<and> deny_unlink f)))) \<and>
     (\<not> existsSync (fs w) (outputPath_js inputPath) \<and>
      ffmpeg w (length (spawned w)) inputPath (outputPath_js inputPath) = ChildClose code written \<longrightarrow>
        failure_handled inputPath code w (convertVideoStreamCopy inputPath w) \<and>
        fs (convertVideoStreamCopy inputPath w)
          = left_by_transcoder (fs w) (outputPath_js inputPath) written)"
proof (intro conjI impI)
  assume a: "\<not> existsSync (fs w) (outputPath_of inputPath) \<and>
      ffmpeg w (length (spawned w)) inputPath (outputPath_of inputPath) = ChildClose code written"
  show "\<exists>w'. convertFlvToMp4 t w = Inr w' \<and> failure_handled inputPath code w w' \<and>
              (existsSync (fs w') (outputPath_of inputPath)
                 \<longrightarrow> (\<exists>f. written = Some f \<and> deny_unlink f))"
    using failure_space_aware [where t = t and w = w and code = code and written = written]
      a assms by simp
  show "\<exists>w'. convertFlvToMp4_v inputPath w = Inr w' \<and> failure_handled inputPath code w w' \<and>
              (existsSync (fs w') (outputPath_of inputPath)
                 \<longrightarrow> (\<exists>f. written = Some f \<and> deny_unlink f))"
    using a assms by (intro failure_validation_aware) simp_all
next
  assume a: "\<not> existsSync (fs w) (outputPath_js inputPath) \<and>
      ffmpeg w (length (spawned w)) inputPath (outputPath_js inputPath) = ChildClose code written"
  then have "failure_handled inputPath code w (convertVideoStreamCopy inputPath w) \<and>
        fs (convertVideoStreamCopy inputPath w)
          = left_by_transcoder (fs w) (outputPath_js inputPath) written"
    using assms by (intro failure_convert_js) simp_all
  then show "failure_handled inputPath code w (convertVideoStreamCopy inputPath w)"
    and "fs (convertVideoStreamCopy inputPath w)
          = left_by_transcoder (fs w) (outputPath_js inputPath) written"
    by simp_all
qed

section \<open>The validators and the unreadable output\<close>

lemma runFfprobeJson_unreadable:
  assumes "fs w1 = left_by_transcoder tree out (Some f)" and "\<not> existsSync tree out"
    and "media f = None"
  shows "runFfprobeJson lg out w1 = (JNull, lg (FfprobeFailed out) ERROR w1)"
proof (cases "lookup (fs w1) out")
  case None
  then show ?thesis by (simp add: runFfprobeJson_def)
next
  case (Some n)
  then have "n = FileNode (last out) f"
    using left_by_transcoder_same [OF assms(2), of "Some f" n] assms(1) by simp
  then show ?thesis using Some assms(3) by (simp add: runFfprobeJson_def)
qed

lemma validate_falsy:
  "\<not> truthy ffinfo \<or> \<not> truthy (get_prop ffinfo ''format'') \<or> \<not> truthy (get_prop ffinfo ''streams'') \<Longrightarrow>
   validateMp4ByFfprobe ffinfo originSize =
     Inr \<lparr>ok = False, reason = Some ''missing format or streams'', reasons = None, details = None\<rparr>"
  by (auto simp: validateMp4ByFfprobe_def)

lemma validate_v_falsy:
  "\<not> truthy ffinfo \<or> \<not> truthy (get_prop ffinfo ''format'') \<or> \<not> truthy (get_prop ffinfo ''streams'') \<Longrightarrow>
   validateMp4ByFfprobe_v ffinfo =
     Inr \<lparr>ok = False, reason = Some ''missing_format_or_streams'', reasons = None, details = None\<rparr>"
  by (auto simp: validateMp4ByFfprobe_v_def)

lemma unreadable_space_aware:
  assumes "\<not> existsSync (fs w) (outputPath_of (fullPath t))"
    and "ffmpeg w (length (spawned w)) (fullPath t) (outputPath_of (fullPath t)) = ChildClose 0 (Some f)"
    and "media f = None"
  shows "\<exists>w'. convertFlvToMp4 t w = Inl (TypeError, w') \<and> spawned w' = spawned w @ [fullPath t] \<and>
              review w' = review w"
proof -
  let ?i = "fullPath t"
  let ?out = "outputPath_of ?i"
  let ?tree1 = "left_by_transcoder (fs w) ?out (Some f)"
  let ?w1 = "(writeLog (ConvertStart ?i ?out) INFO w)\<lparr>spawned := spawned w @ [?i], fs := ?tree1\<rparr>"
  have sp: "spawn_ffmpeg ?i ?out (writeLog (ConvertStart ?i ?out) INFO w) = (ChildClose 0 (Some f), ?w1)"
    using assms(2) spawn_ffmpeg_close [of "writeLog (ConvertStart ?i ?out) INFO w" ?i ?out 0 "Some f"]
    by simp
  have run: "convertFlvToMp4 t w = on_close t ?out 0 ?w1"
    using assms(1) by (simp add: convertFlvToMp4_def Let_def sp)
  have probe: "runFfprobeJson writeLog ?out (writeLog (FfmpegDone ?out) INFO ?w1) =
                 (JNull, writeLog (FfprobeFailed ?out) ERROR (writeLog (FfmpegDone ?out) INFO ?w1))"
    using assms(1,3) by (intro runFfprobeJson_unreadable [where tree = "fs w"]) simp_all
  let ?w3 = "delete_invalid_output writeLog ?out
               (writeLog (FfprobeFailed ?out) ERROR (writeLog (FfmpegDone ?out) INFO ?w1))"
  have "on_close t ?out 0 ?w1 = Inl (TypeError, ?w3)"
    by (simp add: on_close_def probe validate_falsy record_for_review_def)
  moreover have "spawned ?w3 = spawned w @ [?i]" "review ?w3 = review w"
    by simp_all
  ultimately show ?thesis using run by simp
qed

text \<open>
  Claim C2 fails on the code.  The transcoder exits with 0 and leaves an output that
  ffprobe cannot read, so \<open>runFfprobeJson\<close> returns \<open>null\<close> and the validator returns
  its early result, which has no \<open>reasons\<close>.  The worker does not return: the \<open>close\<close>
  listener throws a TypeError at \<open>validation.reasons.join\<close>, and the loop of \<open>main\<close>
  never starts the files after this one.
\<close>

theorem unreadable_output_stops_batch:
  assumes "\<not> existsSync (fs w) (outputPath_of (fullPath t))"
    and "ffmpeg w (length (spawned w)) (fullPath t) (outputPath_of (fullPath t)) = ChildClose 0 (Some f)"
    and "media f = None"
  shows "\<exists>w'. convertFlvToMp4 t w = Inl (TypeError, w') \<and>
              convert_each (t # rest) w = Inl (TypeError, w') \<and>
              spawned w' = spawned w @ [fullPath t]"
  using unreadable_space_aware [OF assms] by auto

lemma read_timestamps_fields:
  "fs (snd (read_timestamps p w)) = fs w"
  "review (snd (read_timestamps p w)) = review w"
  "spawned (snd (read_timestamps p w)) = spawned w"
  "ffmpeg (snd (read_timestamps p w)) = ffmpeg w"
  by (simp_all add: read_timestamps_def split: sum.splits)

lemma delete_invalid_output_v_fields [simp]:
  "review (delete_invalid_output writeLog_v p w) = review w"
  "spawned (delete_invalid_output writeLog_v p w) = spawned w"
  by (simp_all add: delete_invalid_output_def split: sum.splits)

lemma unreadable_validation_aware:
  assumes "\<not> existsSync (fs w) (outputPath_of inputPath)"
    and "ffmpeg w (length (spawned w)) inputPath (outputPath_of inputPath) = ChildClose 0 (Some f)"
    and "media f = None"
  shows "\<exists>w'. convertFlvToMp4_v inputPath w = Inl (TypeError, w') \<and> review w' = review w"
proof -
  let ?i = "inputPath"
  let ?out = "outputPath_of ?i"
  let ?tree1 = "left_by_transcoder (fs w) ?out (Some f)"
  let ?r = "read_timestamps ?i w"
  let ?w0 = "writeLog_v (ConvertStart ?i ?out) INFO (snd ?r)"
  let ?w1 = "?w0\<lparr>spawned := spawned w @ [?i], fs := ?tree1\<rparr>"
  have sp: "spawn_ffmpeg ?i ?out ?w0 = (ChildClose 0 (Some f), ?w1)"
    using assms(2) spawn_ffmpeg_close [of ?w0 ?i ?out 0 "Some f"]
    by (simp add: read_timestamps_fields)
  have run: "convertFlvToMp4_v ?i w = on_close_v ?i ?out (fst ?r) 0 ?w1"
    using assms(1) by (simp add: convertFlvToMp4_v_def Let_def split_beta sp)
  have probe: "runFfprobeJson writeLog_v ?out (writeLog_v (FfmpegDone ?out) INFO ?w1) =
                 (JNull, writeLog_v (FfprobeFailed ?out) ERROR (writeLog_v (FfmpegDone ?out) INFO ?w1))"
    using assms(1,3) by (intro runFfprobeJson_unreadable [where tree = "fs w"]) simp_all
  let ?w3 = "delete_invalid_output writeLog_v ?out
               (writeLog_v (FfprobeFailed ?out) ERROR (writeLog_v (FfmpegDone ?out) INFO ?w1))"
  have "on_close_v ?i ?out (fst ?r) 0 ?w1 = Inl (TypeError, ?w3)"
    by (simp add: on_close_v_def probe validate_v_falsy record_for_review_def)
  moreover have "review ?w3 = review w"
    by (simp add: read_timestamps_fields)
  ultimately show ?thesis using run by simp
qed

text \<open>
  Claim C8 fails on the code, in both variants, for the validation failure of an
  output that ffprobe cannot read: the worker throws before it appends to the ledger,
  so the ledger is as it was.
\<close>

theorem unreadable_output_not_recorded:
  assumes "\<not> existsSync (fs w) (outputPath_of (fullPath t))"
    and "ffmpeg w (length (spawned w)) (fullPath t) (outputPath_of (fullPath t)) = ChildClose 0 (Some f)"
    and "media f = None"
  shows "(\<exists>w'. convertFlvToMp4 t w = Inl (TypeError, w') \<and> review w' = review w) \<and>
         (\<exists>w'. convertFlvToMp4_v (fullPath t) w = Inl (TypeError, w') \<and> review w' = review w)"
  using unreadable_space_aware [OF assms] unreadable_validation_aware [OF assms] by auto

text \<open>
  Claim C3 fails on the code.  For a probe result that is falsy or has no \<open>format\<close> or
  no \<open>streams\<close>, both validators return \<open>ok = false\<close> with a single \<open>reason\<close> string and
  no \<open>reasons\<close> list at all; the string of the space-aware variant is not the code
  \<open>missing_format_or_streams\<close> either.
\<close>

theorem missing_format_result:
  assumes "\<not> truthy ffinfo \<or> \<not> truthy (get_prop ffinfo ''format'') \<or> \<not> truthy (get_prop ffinfo ''streams'')"
  shows "validateMp4ByFfprobe ffinfo originSize =
           Inr \<lparr>ok = False, reason = Some ''missing format or streams'', reasons = None, details = None\<rparr> \<and>
         validateMp4ByFfprobe_v ffinfo =
           Inr \<lparr>ok = False, reason = Some ''missing_format_or_streams'', reasons = None, details = None\<rparr>"
  using assms by (simp add: validate_falsy validate_v_falsy)

theorem missing_format_result_witness:
  "validateMp4ByFfprobe JNull (Fin 1000) =
     Inr \<lparr>ok = False, reason = Some ''missing format or streams'', reasons = None, details = None\<rparr> \<and>
   validateMp4ByFfprobe_v JNull =
     Inr \<lparr>ok = False, reason = Some ''missing_format_or_streams'', reasons = None, details = None\<rparr> \<and>
   validateMp4ByFfprobe (JObj [(''streams'', JArr [])]) (Fin 1000) =
     Inr \<lparr>ok = False, reason = Some ''missing format or streams'', reasons = None, details = None\<rparr> \<and>
   validateMp4ByFfprobe_v (JObj [(''streams'', JArr [])]) =
     Inr \<lparr>ok = False, reason = Some ''missing_format_or_streams'', reasons = None, details = None\<rparr>"
  using missing_format_result [of JNull "Fin 1000"] missing_format_result [of "JObj [(''streams'', JArr [])]" "Fin 1000"]
  by simp

lemmas parse_defs = parseFloat_def parseFloat_str_def parseInt_def parseInt_str_def split_sign_def
  is_ws_def is_digit_def nat_of_digits_def digit_val_def exponent_part_def pow10_def

lemma validate_probe_doc:
  "validateMp4ByFfprobe (probe_doc ''1000'') originSize =
     Inr \<lparr>ok = size_ok (Fin 1000) originSize, reason = None,
          reasons = Some (if size_ok (Fin 1000) originSize then [] else [''size_invalid'']),
          details = Some \<lparr>d_a_ok = True, d_video_ok = True, d_audio_ok = True,
                          d_nb_streams = Fin 2, d_duration = Fin 300, d_size = Some (Fin 1000)\<rparr>\<rparr>"
  by (simp add: validateMp4ByFfprobe_def probe_doc_def js_or_def nullish_def on_ok_def
      stream_is_def nb_streams_of_def parse_defs js_gt_def js_ge_def failed_reasons_def)

lemma Math_abs_first: "Math_abs (x # rest) = Math_abs [x]"
  by (cases x) simp_all

text \<open>
  Claim C1 fails on the code.  When the validator returns its full result, the reason
  \<open>size_invalid\<close> is in it exactly when the absolute value of the output size alone
  is not larger than \<open>MAX_DIFF_SIZE_BYTES\<close>: \<open>Math.abs(size, originSize)\<close> reads its
  first argument only and the comparison is \<open>>\<close>, so the original size plays no part
  and a small difference does not pass.
\<close>

theorem size_check_ignores_origin:
  assumes "validateMp4ByFfprobe ffinfo originSize = Inr v" and "reasons v = Some rs"
  shows "(''size_invalid'' \<in> set rs) =
           (\<not> js_gt (Math_abs [parseFloat (js_or (get_prop (get_prop ffinfo ''format'') ''size'') (JNum 0))])
                     (Fin (of_nat MAX_DIFF_SIZE_BYTES)))"
proof -
  have t: "truthy ffinfo" "truthy (get_prop ffinfo ''format'')" "truthy (get_prop ffinfo ''streams'')"
    using assms by (auto simp: validateMp4ByFfprobe_def split: if_splits)
  have fmt: "js_or (get_prop ffinfo ''format'') (JObj []) = get_prop ffinfo ''format''"
    using t by (simp add: js_or_def)
  let ?fmt = "get_prop ffinfo ''format''"
  let ?streams = "js_or (get_prop ffinfo ''streams'') (JArr [])"
  let ?fsize = "parseFloat (js_or (get_prop ?fmt ''size'') (JNum 0))"
  obtain a_ok where a: "(if nullish (get_prop ?fmt ''format_name'') then Inl TypeError
                         else method_includes (get_prop ?fmt ''format_name'') ''mp4'') = Inr a_ok"
    using assms(1) t
    by (cases "if nullish (get_prop ?fmt ''format_name'') then Inl TypeError
               else method_includes (get_prop ?fmt ''format_name'') ''mp4''")
       (simp_all add: validateMp4ByFfprobe_def fmt on_ok_def)
  obtain video_ok where vd: "method_some ?streams (stream_is ''video'' ''h264'' ''avc1'') = Inr video_ok"
    using assms(1) t a
    by (cases "method_some ?streams (stream_is ''video'' ''h264'' ''avc1'')")
       (simp_all add: validateMp4ByFfprobe_def fmt on_ok_def)
  obtain audio_ok where au: "method_some ?streams (stream_is ''audio'' ''aac'' ''mp4a'') = Inr audio_ok"
    using assms(1) t a vd
    by (cases "method_some ?streams (stream_is ''audio'' ''aac'' ''mp4a'')")
       (simp_all add: validateMp4ByFfprobe_def fmt on_ok_def)
  have "reasons v = Some (failed_reasons
          [(a_ok, ''container_not_mp4''), (video_ok, ''video_stream_not_h264_avc1''),
           (audio_ok, ''audio_stream_not_aac_mp4a''),
           (js_ge (nb_streams_of ?fmt) (Fin 2), ''nb_streams_lt_2''),
           (js_gt (parseFloat (js_or (get_prop ?fmt ''duration'') (JNum 0))) (Fin 0), ''duration_invalid''),
           (size_ok ?fsize originSize, ''size_invalid'')])"
    using assms(1) t a vd au
    by (auto simp: validateMp4ByFfprobe_def fmt on_ok_def Let_def)
  then have "(''size_invalid'' \<in> set rs) = (\<not> size_ok ?fsize originSize)"
    using assms(2) by (auto simp: failed_reasons_def)
  then show ?thesis
    by (simp add: size_ok_def Math_abs_first [of _ "[originSize]"])
qed

text \<open>An output of 1000 bytes from a source of 1000 bytes passes the five other checks
  and is rejected for its size.\<close>

theorem size_check_ignores_origin_witness:
  "validateMp4ByFfprobe (probe_doc ''1000'') (Fin 1000) =
     Inr \<lparr>ok = False, reason = None, reasons = Some [''size_invalid''],
          details = Some \<lparr>d_a_ok = True, d_video_ok = True, d_audio_ok = True,
                          d_nb_streams = Fin 2, d_duration = Fin 300, d_size = Some (Fin 1000)\<rparr>\<rparr>"
proof -
  have no: "\<not> size_ok (Fin 1000) (Fin 1000)"
    by (simp add: size_ok_def js_gt_def MAX_DIFF_SIZE_BYTES_def)
  have run: "validateMp4ByFfprobe (probe_doc ''1000'') (Fin 1000) =
     Inr \<lparr>ok = False, reason = None, reasons = Some [''size_invalid''],
          details = Some \<lparr>d_a_ok = True, d_video_ok = True, d_audio_ok = True,
                          d_nb_streams = Fin 2, d_duration = Fin 300, d_size = Some (Fin 1000)\<rparr>\<rparr>"
    using no by (simp add: validate_probe_doc)
  show ?thesis
    using size_check_ignores_origin [OF run] run by simp
qed

section \<open>The properties at concrete worlds\<close>

lemmas path_defs = TARGET_DIR_def BASE_DIR_def OUTPUT_DIR_def path_join_def outputPath_of_def
  outputPath_js_def path_extname_def extname_def basename_def Let_def clip_path_def

lemma transcoding_fields [simp]:
  "fs (transcoding ev) = tree_at TARGET_DIR two_clips"
  "spawned (transcoding ev) = []"
  "review (transcoding ev) = None"
  "ffmpeg (transcoding ev) n i out = ev"
  "platform (transcoding ev) = ''win32''"
  by (simp_all add: transcoding_def world_of_def)

lemma clip_paths:
  "outputPath_of clip_path = path_join OUTPUT_DIR ''clip.mp4''"
  "outputPath_js clip_path = path_join TARGET_DIR ''clip.mp4''"
  "fullPath clip_task = clip_path"
  by (simp_all add: path_defs clip_task_def task_of_def)

lemma two_clips_tree:
  "existsSync (tree_at TARGET_DIR two_clips) clip_path"
  "\<not> existsSync (tree_at TARGET_DIR two_clips) (path_join OUTPUT_DIR ''clip.mp4'')"
  "\<not> existsSync (tree_at TARGET_DIR two_clips) (path_join TARGET_DIR ''clip.mp4'')"
  "existsSync (tree_at TARGET_DIR two_clips) TARGET_DIR"
  by (simp_all add: existsSync_def two_clips_def path_defs)

text \<open>The first of two files gets an output that ffprobe cannot read: the worker throws, and the second file is never started.\<close>

theorem unreadable_output_stops_batch_witness:
  "\<exists>w'. convertFlvToMp4 clip_task (transcoding (ChildClose 0 (Some (plain_file 900 99))))
            = Inl (TypeError, w') \<and>
         convert_each [clip_task, next_task] (transcoding (ChildClose 0 (Some (plain_file 900 99))))
            = Inl (TypeError, w') \<and>
         spawned w' = [clip_path]"
  using unreadable_output_stops_batch
          [of "transcoding (ChildClose 0 (Some (plain_file 900 99)))" clip_task "plain_file 900 99"
              "[next_task]"]
  by (simp add: clip_paths two_clips_tree plain_file_def)

text \<open>The same run in both variants: the worker throws and the ledger still does not exist.\<close>

theorem unreadable_output_not_recorded_witness:
  "(\<exists>w'. convertFlvToMp4 clip_task (transcoding (ChildClose 0 (Some (plain_file 900 99))))
            = Inl (TypeError, w') \<and> review w' = None) \<and>
   (\<exists>w'. convertFlvToMp4_v clip_path (transcoding (ChildClose 0 (Some (plain_file 900 99))))
            = Inl (TypeError, w') \<and> review w' = None)"
  using unreadable_output_not_recorded
          [of "transcoding (ChildClose 0 (Some (plain_file 900 99)))" clip_task "plain_file 900 99"]
  by (simp add: clip_paths two_clips_tree plain_file_def)

text \<open>Claim C6 fails for \<open>src/convert.js\<close>.  The transcoder exits with code 1 and leaves a partial output; after the worker the partial output is still there.\<close>

theorem convert_js_keeps_partial_output:
  "ffmpeg (transcoding (ChildClose 1 (Some (plain_file 10 99)))) 0 clip_path (outputPath_js clip_path)
     = ChildClose 1 (Some (plain_file 10 99)) \<and>
   existsSync (fs (convertVideoStreamCopy clip_path (transcoding (ChildClose 1 (Some (plain_file 10 99))))))
     (outputPath_js clip_path)"
proof -
  let ?W = "transcoding (ChildClose 1 (Some (plain_file 10 99)))"
  have "fs (convertVideoStreamCopy clip_path ?W)
          = left_by_transcoder (fs ?W) (outputPath_js clip_path) (Some (plain_file 10 99))"
    using failure_convert_js [of 1 ?W clip_path "Some (plain_file 10 99)"]
    by (simp add: clip_paths two_clips_tree)
  then show ?thesis
    by (simp add: clip_paths left_by_transcoder_def existsSync_def two_clips_def path_defs)
qed

text \<open>The three workers on a transcoder that exits with code 1 and leaves a partial output that accepts the unlink.\<close>

theorem transcoder_failure_handled_witness:
  "(\<exists>w'. convertFlvToMp4 clip_task (transcoding (ChildClose 1 (Some (plain_file 10 99)))) = Inr w' \<and>
         failure_handled clip_path 1 (transcoding (ChildClose 1 (Some (plain_file 10 99)))) w' \<and>
         \<not> existsSync (fs w') (outputPath_of clip_path)) \<and>
   (\<exists>w'. convertFlvToMp4_v clip_path (transcoding (ChildClose 1 (Some (plain_file 10 99)))) = Inr w' \<and>
         failure_handled clip_path 1 (transcoding (ChildClose 1 (Some (plain_file 10 99)))) w' \<and>
         \<not> existsSync (fs w') (outputPath_of clip_path)) \<and>
   failure_handled clip_path 1 (transcoding (ChildClose 1 (Some (plain_file 10 99))))
     (convertVideoStreamCopy clip_path (transcoding (ChildClose 1 (Some (plain_file 10 99))))) \<and>
   fs (convertVideoStreamCopy clip_path (transcoding (ChildClose 1 (Some (plain_file 10 99)))))
     = left_by_transcoder (tree_at TARGET_DIR two_clips) (outputPath_js clip_path)
         (Some (plain_file 10 99))"
  using transcoder_failure_handled
          [of 1 clip_task clip_path "transcoding (ChildClose 1 (Some (plain_file 10 99)))"
              "Some (plain_file 10 99)"]
  by (simp add: clip_paths two_clips_tree plain_file_def)

lemma example_world_fields:
  "platform linux_world = ''linux''"
  "fs linux_world = tree_at TARGET_DIR two_clips"
  "spawned linux_world = []"
  "review linux_world = None"
  "platform no_fsutil_world = ''win32''"
  "fs no_fsutil_world = tree_at TARGET_DIR two_clips"
  "spawned no_fsutil_world = []"
  "review no_fsutil_world = None"
  "sp_error (fsutil no_fsutil_world v) = Some ''ENOENT''"
  "platform no_number_world = ''win32''"
  "fs no_number_world = tree_at TARGET_DIR two_clips"
  "spawned no_number_world = []"
  "review no_number_world = None"
  "sp_error (fsutil no_number_world v) = None"
  "match_digits_commas (sp_stdout (fsutil no_number_world v)) = None"
  by (simp_all add: linux_world_def no_fsutil_world_def no_number_world_def world_of_def
      match_digits_commas_def is_digit_def)

text \<open>A Windows world where \<open>fsutil\<close> cannot be started, a Windows world where it prints
  no number, and a Linux world: in the first two the query gives 0 and \<open>main\<close> returns
  with the CRITICAL line; in the third the query throws and \<open>main\<close> ends by the
  exception.\<close>

theorem disk_query_failure_outcomes_witness:
  "(\<exists>w'. getAvailableDiskSpace OUTPUT_DIR no_fsutil_world = Inr (Fin 0, w')) \<and>
   (\<exists>w'. main no_fsutil_world = Inr w' \<and>
         Line CRITICAL (DiskSpaceLow OUTPUT_DIR) \<in> set (logfile w')) \<and>
   spawned (final (main no_fsutil_world)) = [] \<and>
   (\<exists>w'. getAvailableDiskSpace OUTPUT_DIR no_number_world = Inr (Fin 0, w')) \<and>
   (\<exists>w'. main no_number_world = Inr w' \<and>
         Line CRITICAL (DiskSpaceLow OUTPUT_DIR) \<in> set (logfile w')) \<and>
   spawned (final (main no_number_world)) = [] \<and>
   getAvailableDiskSpace OUTPUT_DIR linux_world = Inl (Error ''Unsupported platform'', linux_world) \<and>
   main linux_world =
     Inl (Error ''Unsupported platform'', linux_world\<lparr>logfile := [Header], review := None\<rparr>) \<and>
   spawned (final (main linux_world)) = []"
  using disk_query_failure_outcomes [of no_fsutil_world]
    disk_query_failure_outcomes [of no_number_world]
    disk_query_failure_outcomes [of linux_world]
  by (simp add: example_world_fields two_clips_tree)

lemma ab_paths:
  "fullPath a_clip = path_join (path_join TARGET_DIR ''a'') ''clip.flv''"
  "fullPath b_clip = path_join (path_join TARGET_DIR ''b'') ''clip.flv''"
  "outputPath_of (path_join (path_join TARGET_DIR ''a'') ''clip.flv'') = path_join OUTPUT_DIR ''clip.mp4''"
  "outputPath_of (path_join (path_join TARGET_DIR ''b'') ''clip.flv'') = path_join OUTPUT_DIR ''clip.mp4''"
  by (simp_all add: a_clip_def b_clip_def task_of_def path_defs)

lemma world_of_fields [simp]:
  "fs (world_of tree) = tree"
  "spawned (world_of tree) = []"
  "ffmpeg (world_of tree) n i out = ChildClose 1 None"
  by (simp_all add: world_of_def)

text \<open>Claim C10 fails when the first of the two tasks leaves no output.  Two sources with the same basename; the transcoder of the first exits with code 1, its output is removed, and the transcoder is started for the second as well.\<close>

theorem second_task_transcoded_after_failure:
  "last (fullPath a_clip) = last (fullPath b_clip) \<and> fullPath a_clip \<noteq> fullPath b_clip \<and>
   spawned (final (convert_each [a_clip, b_clip] (world_of (tree_at TARGET_DIR same_name_entries))))
     = [fullPath a_clip, fullPath b_clip]"
proof -
  let ?W = "world_of (tree_at TARGET_DIR same_name_entries)"
  let ?out = "path_join OUTPUT_DIR ''clip.mp4''"
  have W: "\<not> existsSync (fs ?W) ?out" "existsSync (fs ?W) (fullPath a_clip)"
    by (simp_all add: existsSync_def same_name_entries_def ab_paths path_defs)
  have "\<exists>w'. convertFlvToMp4 a_clip ?W = Inr w' \<and> failure_handled (fullPath a_clip) 1 ?W w' \<and>
              (existsSync (fs w') (outputPath_of (fullPath a_clip))
                 \<longrightarrow> (\<exists>f. (None :: fileinfo option) = Some f \<and> deny_unlink f))"
    using W by (intro failure_space_aware) (simp_all add: ab_paths)
  then obtain w' where a: "convertFlvToMp4 a_clip ?W = Inr w'"
    and gone: "\<not> existsSync (fs w') ?out"
    by (auto simp: ab_paths)
  have "spawned w' = [fullPath a_clip]"
    using convertFlvToMp4_spawned [of a_clip ?W] a W by (simp add: ab_paths)
  then have "spawned (final (convertFlvToMp4 b_clip w')) = [fullPath a_clip, fullPath b_clip]"
    using gone by (simp add: convertFlvToMp4_spawned ab_paths)
  moreover have "final (convert_each [a_clip, b_clip] ?W) = final (convertFlvToMp4 b_clip w')"
    using a by (cases "convertFlvToMp4 b_clip w'") auto
  ultimately show ?thesis
    by (simp add: ab_paths path_join_def)
qed

text \<open>The output of the basename is in place: the second source is skipped and removed.\<close>

theorem same_basename_takes_skip_path_witness:
  "\<exists>w'. convertFlvToMp4 b_clip (world_of converted_tree) = Inr w' \<and> spawned w' = [] \<and>
         Line WARNING (SkipExists (path_join OUTPUT_DIR ''clip.mp4'')) \<in> set (logfile w') \<and>
         \<not> existsSync (fs w') (fullPath b_clip)"
proof -
  have ex: "existsSync (fs (world_of converted_tree)) (outputPath_of (fullPath a_clip))"
    by (simp add: converted_tree_def existsSync_def ab_paths path_defs)
  have src: "peek (fs (world_of converted_tree)) (fullPath b_clip) = Some (Some (plain_file 2000 6))"
    by (simp add: converted_tree_def peek_def same_name_entries_def ab_paths path_defs)
  have ne: "fullPath a_clip \<noteq> []" "fullPath b_clip \<noteq> []"
    "last (fullPath a_clip) = last (fullPath b_clip)"
    by (simp_all add: ab_paths path_join_def)
  have free: "\<not> deny_unlink (plain_file 2000 6)"
    by (simp add: plain_file_def)
  show ?thesis
    using same_basename_takes_skip_path [OF ne ex] src free
    by (auto simp: ab_paths)
qed











end
